theory Spec2Isabelle
  imports Complex_Main
begin

section \<open>JavaScript values\<close>

text \<open>
  The functions verified here are those of \<^verbatim>\<open>app/utils/colorUtils.js\<close>. They are
  called from untyped JavaScript, so every argument is a JavaScript value. A number is a
  real or \<open>NaN\<close> (finite doubles are idealised as reals), a string is the list of its
  code units, and an array is a reference into the store of array objects, so that a
  caller's array can be observed after a call. A code unit is a \<open>char\<close>; the units
  beyond its range are no hexadecimal digits, and \<^verbatim>\<open>hexToRgb\<close> treats them as it
  treats any other unit that is none. \<open>JSObject\<close> stands for every object that is not
  an array.
\<close>

datatype jsnum = Num real | NaN

datatype jsval =
    JSUndefined
  | JSNull
  | JSBoolean bool
  | JSNumber jsnum
  | JSString string
  | JSArrayRef nat
  | JSObject

text \<open>\<^verbatim>\<open>!v\<close> is \<open>\<not> truthy v\<close>.\<close>

fun truthy :: "jsval \<Rightarrow> bool" where
  "truthy JSUndefined = False"
| "truthy JSNull = False"
| "truthy (JSBoolean b) = b"
| "truthy (JSNumber (Num r)) = (r \<noteq> 0)"
| "truthy (JSNumber NaN) = False"
| "truthy (JSString s) = (s \<noteq> [])"
| "truthy (JSArrayRef a) = True"
| "truthy JSObject = True"

fun typeof :: "jsval \<Rightarrow> string" where
  "typeof JSUndefined = ''undefined''"
| "typeof JSNull = ''object''"
| "typeof (JSBoolean b) = ''boolean''"
| "typeof (JSNumber n) = ''number''"
| "typeof (JSString s) = ''string''"
| "typeof (JSArrayRef a) = ''object''"
| "typeof JSObject = ''object''"

text \<open>Arithmetic and comparison of numbers: \<open>NaN\<close> propagates and compares false.\<close>

fun js_div :: "jsnum \<Rightarrow> jsnum \<Rightarrow> jsnum" where
  "js_div (Num a) (Num b) = (if b = 0 then NaN else Num (a / b))"
| "js_div _ _ = NaN"

fun js_sub :: "jsnum \<Rightarrow> jsnum \<Rightarrow> jsnum" where
  "js_sub (Num a) (Num b) = Num (a - b)"
| "js_sub _ _ = NaN"

fun js_mul :: "jsnum \<Rightarrow> jsnum \<Rightarrow> jsnum" where
  "js_mul (Num a) (Num b) = Num (a * b)"
| "js_mul _ _ = NaN"

fun Math_abs :: "jsnum \<Rightarrow> jsnum" where
  "Math_abs (Num a) = Num \<bar>a\<bar>"
| "Math_abs NaN = NaN"

fun js_gt :: "jsnum \<Rightarrow> jsnum \<Rightarrow> bool" where
  "js_gt (Num a) (Num b) = (a > b)"
| "js_gt _ _ = False"

subsection \<open>Single precision\<close>

text \<open>
  The engine stores the values of a tensor in single precision: a number put into a
  tensor is rounded as \<^verbatim>\<open>Math.fround\<close> and a \<^verbatim>\<open>Float32Array\<close> round it, to the
  nearest number with a significand of 24 bits, a tie going to the even significand.
  \<open>float32_exponent x\<close> is the exponent \<open>e\<close> for which \<open>|x|\<close> is at least \<open>2 powi e\<close>
  and less than \<open>2 powi (e + 1)\<close>, and it is \<open>-126\<close> for the smaller numbers, which are
  so rounded to a multiple of \<open>2 powi (-149)\<close>. The rounding of \<open>x\<close> is the multiple of
  \<open>2 powi (e - 23)\<close> nearest to it. A number whose rounding has a magnitude of
  \<open>2 powi 128\<close> or more is infinite in the engine; the numbers modelled here have no
  infinity, and the functions verified put channel values and labels into tensors, which
  lie between 0 and 1.
\<close>

definition round_half_even :: "real \<Rightarrow> int" where
  "round_half_even y =
     (let f = \<lfloor>y\<rfloor>; d = y - of_int f
      in if d < 1 / 2 then f else if 1 / 2 < d then f + 1 else if even f then f else f + 1)"

definition float32_exponent :: "real \<Rightarrow> int" where
  "float32_exponent x =
     (case List.find (\<lambda>e. \<bar>x\<bar> < 2 powi (e + 1)) [-126..127] of
        None \<Rightarrow> 128
      | Some e \<Rightarrow> e)"

definition fround_real :: "real \<Rightarrow> real" where
  "fround_real x =
     (let q = 2 powi (float32_exponent x - 23)
      in of_int (round_half_even (x / q)) * q)"

fun fround :: "jsnum \<Rightarrow> jsnum" where
  "fround (Num x) = Num (fround_real x)"
| "fround NaN = NaN"

section \<open>The colour codec: \<^verbatim>\<open>hexToRgb\<close>\<close>

subsection \<open>String operations\<close>

text \<open>\<^verbatim>\<open>s.charAt(i)\<close> is the one-unit string at \<open>i\<close>, or the empty string out of range.\<close>

definition charAt :: "string \<Rightarrow> nat \<Rightarrow> string" where
  "charAt s i = take 1 (drop i s)"

text \<open>\<^verbatim>\<open>s.substring(i)\<close>, the rest of the string from position \<open>i\<close>.\<close>

definition substring :: "string \<Rightarrow> nat \<Rightarrow> string" where
  "substring s i = drop i s"

text \<open>\<^verbatim>\<open>s.split('')\<close>, the list of the one-unit strings of \<open>s\<close>.\<close>

definition split_units :: "string \<Rightarrow> string list" where
  "split_units s = map (\<lambda>c. [c]) s"

text \<open>\<^verbatim>\<open>parts.join('')\<close>.\<close>

definition join :: "string list \<Rightarrow> string" where
  "join parts = concat parts"

subsection \<open>The regular expression\<close>

text \<open>
  The class \<^verbatim>\<open>[a-f\d]\<close> under the flag \<^verbatim>\<open>i\<close>: a decimal digit, or a letter
  \<open>a\<close> to \<open>f\<close> in either case. (Without the flag \<^verbatim>\<open>u\<close>, no code unit outside ASCII
  is folded onto an ASCII letter.)
\<close>

definition hex_class :: "char \<Rightarrow> bool" where
  "hex_class c = (c \<in> set ''0123456789abcdefABCDEF'')"

text \<open>
  \<^verbatim>\<open>/^([a-f\d]{2})([a-f\d]{2})([a-f\d]{2})$/i.exec(s)\<close>: \<open>None\<close> for \<^verbatim>\<open>null\<close>, else
  the whole match followed by the three captured groups. The pattern is anchored at both
  ends (no multiline flag), so it matches exactly the strings of six class members.
\<close>

definition regex_exec :: "string \<Rightarrow> string list option" where
  "regex_exec s =
     (if length s = 6 \<and> list_all hex_class s
      then Some [s, take 2 s, take 2 (drop 2 s), take 2 (drop 4 s)]
      else None)"

subsection \<open>\<^verbatim>\<open>parseInt(s, 16)\<close>\<close>

definition hex_digit_value :: "char \<Rightarrow> nat option" where
  "hex_digit_value = map_of
     [(CHR ''0'', 0), (CHR ''1'', 1), (CHR ''2'', 2), (CHR ''3'', 3), (CHR ''4'', 4),
      (CHR ''5'', 5), (CHR ''6'', 6), (CHR ''7'', 7), (CHR ''8'', 8), (CHR ''9'', 9),
      (CHR ''a'', 10), (CHR ''b'', 11), (CHR ''c'', 12), (CHR ''d'', 13), (CHR ''e'', 14),
      (CHR ''f'', 15),
      (CHR ''A'', 10), (CHR ''B'', 11), (CHR ''C'', 12), (CHR ''D'', 13), (CHR ''E'', 14),
      (CHR ''F'', 15)]"

text \<open>The value of the longest prefix of hexadecimal digits, most significant first.\<close>

fun parse_digits :: "nat \<Rightarrow> string \<Rightarrow> nat" where
  "parse_digits acc [] = acc"
| "parse_digits acc (c # cs) =
     (case hex_digit_value c of
        None \<Rightarrow> acc
      | Some d \<Rightarrow> parse_digits (16 * acc + d) cs)"

text \<open>
  \<^verbatim>\<open>parseInt(s, 16)\<close> is \<open>NaN\<close> when \<open>s\<close> does not begin with a digit. The leading
  white space, sign and \<^verbatim>\<open>0x\<close> prefix that \<^verbatim>\<open>parseInt\<close> also accepts do not begin
  with a member of the class above, and \<^verbatim>\<open>hexToRgb\<close> applies \<^verbatim>\<open>parseInt\<close> to
  captured groups only; they are left out.
\<close>

definition parseInt16 :: "string \<Rightarrow> jsnum" where
  "parseInt16 s =
     (case s of
        [] \<Rightarrow> NaN
      | c # cs \<Rightarrow>
          (case hex_digit_value c of
             None \<Rightarrow> NaN
           | Some d \<Rightarrow> Num (real (parse_digits 0 s))))"

subsection \<open>\<^verbatim>\<open>hexToRgb\<close>\<close>

text \<open>
  \<open>None\<close> is the result \<^verbatim>\<open>null\<close>. The \<^verbatim>\<open>try\<close> around the three \<^verbatim>\<open>parseInt\<close>
  calls has no effect: neither \<^verbatim>\<open>parseInt\<close> nor the division raises.
\<close>

definition hexToRgb :: "jsval \<Rightarrow> jsnum list option" where
  "hexToRgb hex =
     (if \<not> truthy hex \<or> typeof hex \<noteq> ''string'' then None
      else case hex of
        JSString h \<Rightarrow>
          (let cleaned = (if charAt h 0 = ''#'' then substring h 1 else h);
               expanded = (if length cleaned = 3
                           then join (map (\<lambda>char. char @ char) (split_units cleaned))
                           else cleaned)
           in case regex_exec expanded of
                None \<Rightarrow> None
              | Some result \<Rightarrow>
                  Some [js_div (parseInt16 (result ! 1)) (Num 255),
                        js_div (parseInt16 (result ! 2)) (Num 255),
                        js_div (parseInt16 (result ! 3)) (Num 255)])
      | _ \<Rightarrow> None)"

section \<open>The engine: tensors, the model, and the calls made to it\<close>

text \<open>
  A JavaScript \<^verbatim>\<open>Error\<close> is its message. A thrown error is the left summand of a
  result.
\<close>

datatype js_error = Error string

fun message :: "js_error \<Rightarrow> string" where
  "message (Error m) = m"

text \<open>
  A tensor of the numeric engine: its identity in the engine's memory, its shape and its
  values in row-major order.
\<close>

record tensor =
  tid :: nat
  shape :: "nat \<times> nat"
  tdata :: "jsnum list"

text \<open>
  The options \<^verbatim>\<open>trainModel\<close> accepts, and the options it passes to \<^verbatim>\<open>model.fit\<close>,
  which have the first three properties in common. A property that is absent reads as
  \<^verbatim>\<open>undefined\<close>.
\<close>

record es_config =
  monitor :: string
  minDelta :: real
  patience :: nat
  mode :: string

datatype callback = earlyStopping es_config

record train_config =
  epochs :: jsval
  batchSize :: jsval
  validationSplit :: jsval

record fit_args = train_config +
  shuffle :: bool
  callbacks :: "callback list"
  verbose :: nat

datatype engine_call = FitCall tensor tensor fit_args | PredictCall tensor

text \<open>
  The state a call runs in: the store of array objects (\<open>arrays st a\<close> is the content
  of the array at reference \<open>a\<close>), the engine's memory (the identities of the tensors
  that are allocated and not yet disposed of, and the next identity), and the calls made
  to the model so far.
\<close>

record tf_state =
  arrays :: "nat \<Rightarrow> jsval list"
  next_id :: nat
  live :: "nat set"
  calls :: "engine_call list"

text \<open>
  \<^verbatim>\<open>tf.tensor2d(rows)\<close> allocates a tensor whose shape is inferred from the nested
  array; \<^verbatim>\<open>tf.tensor2d(values, shape)\<close> allocates one of the given shape from a flat
  array. No type of values is given in either call, so the tensor is of the type
  \<^verbatim>\<open>float32\<close> and holds the given numbers rounded to single precision.
  \<^verbatim>\<open>t.dispose()\<close> releases a tensor and does nothing to one already released;
  \<^verbatim>\<open>t.dataSync()\<close> reads the values.
\<close>

definition tensor2d :: "jsnum list list \<Rightarrow> tf_state \<Rightarrow> tensor \<times> tf_state" where
  "tensor2d rows st =
     (\<lparr>tid = next_id st,
       shape = (length rows, case rows of [] \<Rightarrow> 0 | r # _ \<Rightarrow> length r),
       tdata = map fround (concat rows)\<rparr>,
      st\<lparr>next_id := Suc (next_id st), live := insert (next_id st) (live st)\<rparr>)"

definition tensor2d_shaped :: "jsnum list \<Rightarrow> nat \<times> nat \<Rightarrow> tf_state \<Rightarrow> tensor \<times> tf_state" where
  "tensor2d_shaped vals sh st =
     (\<lparr>tid = next_id st, shape = sh, tdata = map fround vals\<rparr>,
      st\<lparr>next_id := Suc (next_id st), live := insert (next_id st) (live st)\<rparr>)"

text \<open>
  A tensor that the engine allocates for a result of its own, holding the values the
  engine computed.
\<close>

definition engine_tensor :: "jsnum list \<Rightarrow> nat \<times> nat \<Rightarrow> tf_state \<Rightarrow> tensor \<times> tf_state" where
  "engine_tensor vals sh st =
     (\<lparr>tid = next_id st, shape = sh, tdata = vals\<rparr>,
      st\<lparr>next_id := Suc (next_id st), live := insert (next_id st) (live st)\<rparr>)"

definition dispose :: "tensor \<Rightarrow> tf_state \<Rightarrow> tf_state" where
  "dispose t st = st\<lparr>live := live st - {tid t}\<rparr>"

definition dataSync :: "tensor \<Rightarrow> jsnum list" where
  "dataSync t = tdata t"

text \<open>
  The model is a black box of the engine: \<open>'w\<close> is its trainable state and \<open>'h\<close> the
  training history. \<open>fit_fn\<close> is \<^verbatim>\<open>model.fit\<close>: it fails or returns a history, and
  leaves the model in a new state either way. \<open>predict_fn\<close> is the forward pass: it fails
  or returns the shape and values of its output.
\<close>

record ('w, 'h) engine =
  fit_fn :: "'w \<Rightarrow> tensor \<Rightarrow> tensor \<Rightarrow> fit_args \<Rightarrow> (js_error + 'h) \<times> 'w"
  predict_fn :: "'w \<Rightarrow> tensor \<Rightarrow> js_error + ((nat \<times> nat) \<times> jsnum list)"

text \<open>\<^verbatim>\<open>await model.fit(xs, ys, args)\<close>, recorded among the calls.\<close>

definition model_fit ::
  "('w, 'h) engine \<Rightarrow> 'w \<Rightarrow> tensor \<Rightarrow> tensor \<Rightarrow> fit_args \<Rightarrow> tf_state
     \<Rightarrow> (js_error + 'h) \<times> 'w \<times> tf_state" where
  "model_fit eng model x y args st =
     (case fit_fn eng model x y args of
        (r, model') \<Rightarrow> (r, model', st\<lparr>calls := calls st @ [FitCall x y args]\<rparr>))"

text \<open>
  \<^verbatim>\<open>model.predict(input)\<close>, recorded among the calls. The engine returns its output as
  a newly allocated tensor, which belongs to the caller.
\<close>

definition model_predict ::
  "('w, 'h) engine \<Rightarrow> 'w \<Rightarrow> tensor \<Rightarrow> tf_state \<Rightarrow> (js_error + tensor) \<times> tf_state" where
  "model_predict eng model input st =
     (let st1 = st\<lparr>calls := calls st @ [PredictCall input]\<rparr>
      in case predict_fn eng model input of
           Inl e \<Rightarrow> (Inl e, st1)
         | Inr (sh, vals) \<Rightarrow>
             (case engine_tensor vals sh st1 of (t, st2) \<Rightarrow> (Inr t, st2)))"

section \<open>The preprocessor: \<^verbatim>\<open>preprocessData\<close>\<close>

definition Array_isArray :: "jsval \<Rightarrow> bool" where
  "Array_isArray v = (case v of JSArrayRef a \<Rightarrow> True | _ \<Rightarrow> False)"

text \<open>The elements of an array value, read from the store.\<close>

definition elements :: "tf_state \<Rightarrow> jsval \<Rightarrow> jsval list" where
  "elements st v = (case v of JSArrayRef a \<Rightarrow> arrays st a | _ \<Rightarrow> [])"

text \<open>
  The result of a successful call. The fields \<open>ds_xs\<close> and \<open>ds_ys\<close> are the properties
  \<^verbatim>\<open>xs\<close> and \<^verbatim>\<open>ys\<close> of the returned object.
\<close>

record dataset =
  ds_xs :: tensor
  ds_ys :: tensor
  totalSamples :: nat

text \<open>
  \<^verbatim>\<open>colors.map(hexToRgb).filter(rgb => rgb !== null)\<close> builds new arrays and reads the
  caller's; \<^verbatim>\<open>map\<close> passes the index and the array as well, which \<^verbatim>\<open>hexToRgb\<close> does
  not look at. After the filter every entry is a vector, which \<open>the\<close> unwraps. A hole of
  a sparse array is dropped by the filter as an unparseable entry is.
\<close>

definition preprocessData ::
  "jsval \<Rightarrow> jsval \<Rightarrow> tf_state \<Rightarrow> (js_error + dataset) \<times> tf_state" where
  "preprocessData selectedColors unselectedColors st =
     (if \<not> Array_isArray selectedColors \<or> \<not> Array_isArray unselectedColors
      then (Inl (Error ''Color arrays must be provided''), st)
      else if length (elements st selectedColors) = 0 \<or> length (elements st unselectedColors) = 0
      then (Inl (Error ''Both selected and unselected colors must contain data''), st)
      else
        let processedSelected =
              filter (\<lambda>rgb. rgb \<noteq> None) (map hexToRgb (elements st selectedColors));
            processedUnselected =
              filter (\<lambda>rgb. rgb \<noteq> None) (map hexToRgb (elements st unselectedColors))
        in if length processedSelected = 0 \<or> length processedUnselected = 0
           then (Inl (Error ''No valid colors found after processing''), st)
           else
             case tensor2d (map the (processedSelected @ processedUnselected)) st of
               (x, st1) \<Rightarrow>
                 (case tensor2d_shaped
                         (replicate (length processedSelected) (Num 1) @
                          replicate (length processedUnselected) (Num 0))
                         (length processedSelected + length processedUnselected, 1) st1 of
                    (y, st2) \<Rightarrow>
                      (Inr \<lparr>ds_xs = x, ds_ys = y,
                            totalSamples =
                              length processedSelected + length processedUnselected\<rparr>,
                       st2)))"

section \<open>The trainer: \<^verbatim>\<open>trainModel\<close>\<close>

text \<open>A destructuring default applies to a property that is absent or \<^verbatim>\<open>undefined\<close>.\<close>

definition default_to :: "jsval \<Rightarrow> jsval \<Rightarrow> jsval" where
  "default_to d v = (if v = JSUndefined then d else v)"

text \<open>
  The fourth argument is \<open>None\<close> when the caller leaves it out, and the parameter's
  default \<^verbatim>\<open>{}\<close> applies. The \<^verbatim>\<open>try\<close> block holds the call of the preprocessor as
  well as the call of \<^verbatim>\<open>model.fit\<close>, so the \<^verbatim>\<open>catch\<close> clause rewraps an error of
  either; the \<^verbatim>\<open>finally\<close> clause disposes of the two tensors when the preprocessor
  returned them. The result is that of the promise once it has settled.
\<close>

definition trainModel ::
  "('w, 'h) engine \<Rightarrow> 'w \<Rightarrow> jsval \<Rightarrow> jsval \<Rightarrow> train_config option \<Rightarrow> tf_state
     \<Rightarrow> (js_error + 'h) \<times> 'w \<times> tf_state" where
  "trainModel eng model selectedColors unselectedColors config st =
     (let cfg = (case config of
                   None \<Rightarrow> \<lparr>epochs = JSUndefined, batchSize = JSUndefined,
                             validationSplit = JSUndefined\<rparr>
                 | Some c \<Rightarrow> c);
          epochs' = default_to (JSNumber (Num 50)) (epochs cfg);
          batchSize' = default_to (JSNumber (Num 32)) (batchSize cfg);
          validationSplit' = default_to (JSNumber (Num (2 / 10))) (validationSplit cfg)
      in case preprocessData selectedColors unselectedColors st of
           (Inl error, st1) \<Rightarrow>
             (Inl (Error (''Training failed: '' @ message error)), model, st1)
         | (Inr tensors, st1) \<Rightarrow>
             (let earlyStoppingCallback =
                    earlyStopping \<lparr>monitor = ''val_loss'', minDelta = 1 / 1000,
                                    patience = 5, mode = ''min''\<rparr>
              in case model_fit eng model (ds_xs tensors) (ds_ys tensors)
                        \<lparr>epochs = epochs', batchSize = batchSize',
                         validationSplit = validationSplit', shuffle = True,
                         callbacks = [earlyStoppingCallback], verbose = 1\<rparr> st1 of
                  (r, model', st2) \<Rightarrow>
                    (let st3 = dispose (ds_ys tensors) (dispose (ds_xs tensors) st2)
                     in (case r of
                           Inl error \<Rightarrow>
                             (Inl (Error (''Training failed: '' @ message error)), model', st3)
                         | Inr history \<Rightarrow> (Inr history, model', st3)))))"

section \<open>The predictor: \<^verbatim>\<open>predictColor\<close>\<close>

text \<open>
  The result object. \<open>score\<close> is \<open>None\<close> when \<^verbatim>\<open>dataSync()[0]\<close> is \<^verbatim>\<open>undefined\<close>
  (an output with no value), and arithmetic on \<^verbatim>\<open>undefined\<close> gives \<open>NaN\<close>.
\<close>

record prediction_result =
  score :: "jsnum option"
  confidence :: jsnum
  likely :: bool
  prediction :: string

definition to_number :: "jsnum option \<Rightarrow> jsnum" where
  "to_number v = (case v of None \<Rightarrow> NaN | Some n \<Rightarrow> n)"

text \<open>
  The input tensor is allocated after the colour has parsed. The \<^verbatim>\<open>finally\<close> clause
  disposes of the input tensor, on return and when the forward pass raises.
\<close>

definition predictColor ::
  "('w, 'h) engine \<Rightarrow> 'w \<Rightarrow> jsval \<Rightarrow> tf_state \<Rightarrow> (js_error + prediction_result) \<times> tf_state" where
  "predictColor eng model color st =
     (case hexToRgb color of
        None \<Rightarrow> (Inl (Error ''Invalid color format''), st)
      | Some rgb \<Rightarrow>
          (case tensor2d [rgb] st of
             (input, st1) \<Rightarrow>
               (case model_predict eng model input st1 of
                  (Inl e, st2) \<Rightarrow> (Inl e, dispose input st2)
                | (Inr output, st2) \<Rightarrow>
                    (let score' = (case dataSync output of [] \<Rightarrow> None | v # _ \<Rightarrow> Some v);
                         confidence' =
                           js_mul (Math_abs (js_sub (to_number score') (Num (5 / 10)))) (Num 2)
                     in (Inr \<lparr>score = score', confidence = confidence',
                               likely = js_gt (to_number score') (Num (5 / 10)),
                               prediction = (if js_gt (to_number score') (Num (5 / 10))
                                             then ''like'' else ''dislike'')\<rparr>,
                         dispose input st2)))))"

section \<open>Notions used to state the properties\<close>

subsection \<open>The colour codec\<close>

text \<open>
  A string with an optional leading \<open>#\<close> removed, and the expansion of a three-digit
  shorthand by doubling each digit.
\<close>

definition strip_hash :: "string \<Rightarrow> string" where
  "strip_hash s = (case s of [] \<Rightarrow> [] | c # r \<Rightarrow> if c = CHR ''#'' then r else s)"

definition expand_shorthand :: "string \<Rightarrow> string" where
  "expand_shorthand b = (if length b = 3 then concat (map (\<lambda>c. [c, c]) b) else b)"

text \<open>
  The pattern of a colour as the specification words it: three or six hexadecimal digits
  of either case after an optional leading \<open>#\<close>.
\<close>

definition matches_hex_pattern :: "string \<Rightarrow> bool" where
  "matches_hex_pattern s =
     ((length (strip_hash s) = 3 \<or> length (strip_hash s) = 6) \<and>
      list_all hex_class (strip_hash s))"

text \<open>The three channels read from a string of six digits, as \<^verbatim>\<open>hexToRgb\<close> does last.\<close>

definition channels :: "string \<Rightarrow> jsnum list option" where
  "channels e =
     (case regex_exec e of
        None \<Rightarrow> None
      | Some result \<Rightarrow>
          Some [js_div (parseInt16 (result ! 1)) (Num 255),
                js_div (parseInt16 (result ! 2)) (Num 255),
                js_div (parseInt16 (result ! 3)) (Num 255)])"

text \<open>A number that lies between 0 and 1.\<close>

definition in_unit_interval :: "jsnum \<Rightarrow> bool" where
  "in_unit_interval n = (case n of Num r \<Rightarrow> 0 \<le> r \<and> r \<le> 1 | NaN \<Rightarrow> False)"

text \<open>
  Two strings differ in letter case only when they agree after every ASCII capital is
  replaced by its small letter.
\<close>

definition ascii_lower :: "char \<Rightarrow> char" where
  "ascii_lower c =
     (case map_of (zip ''ABCDEFGHIJKLMNOPQRSTUVWXYZ'' ''abcdefghijklmnopqrstuvwxyz'') c of
        None \<Rightarrow> c
      | Some l \<Rightarrow> l)"

subsection \<open>The preprocessor and the trainer\<close>

text \<open>The vectors of the entries that parse, in the order of the entries.\<close>

fun parseable_vectors :: "jsval list \<Rightarrow> jsnum list list" where
  "parseable_vectors [] = []"
| "parseable_vectors (c # cs) =
     (case hexToRgb c of
        None \<Rightarrow> parseable_vectors cs
      | Some v \<Rightarrow> v # parseable_vectors cs)"

text \<open>\<^verbatim>\<open>t.arraySync()\<close>: the rows of a tensor, read off its shape and values.\<close>

fun rows_of :: "nat \<Rightarrow> nat \<Rightarrow> 'a list \<Rightarrow> 'a list list" where
  "rows_of 0 width vals = []"
| "rows_of (Suc n) width vals = take width vals # rows_of n width (drop width vals)"

definition arraySync :: "tensor \<Rightarrow> jsnum list list" where
  "arraySync t = rows_of (fst (shape t)) (snd (shape t)) (tdata t)"

text \<open>
  The two kinds of error of the preprocessor. The code raises plain \<^verbatim>\<open>Error\<close> objects,
  which their messages tell apart.
\<close>

definition input_validation_error :: "js_error \<Rightarrow> bool" where
  "input_validation_error e =
     (e = Error ''Color arrays must be provided'' \<or>
      e = Error ''Both selected and unselected colors must contain data'')"

definition data_error :: "js_error \<Rightarrow> bool" where
  "data_error e = (e = Error ''No valid colors found after processing'')"

text \<open>The options \<^verbatim>\<open>trainModel\<close> passes to \<^verbatim>\<open>model.fit\<close> for a given fourth argument.\<close>

definition fit_options :: "train_config option \<Rightarrow> fit_args" where
  "fit_options config =
     \<lparr>epochs = default_to (JSNumber (Num 50))
                 (case config of None \<Rightarrow> JSUndefined | Some c \<Rightarrow> epochs c),
      batchSize = default_to (JSNumber (Num 32))
                    (case config of None \<Rightarrow> JSUndefined | Some c \<Rightarrow> batchSize c),
      validationSplit = default_to (JSNumber (Num (2 / 10)))
                          (case config of None \<Rightarrow> JSUndefined | Some c \<Rightarrow> validationSplit c),
      shuffle = True,
      callbacks = [earlyStopping \<lparr>monitor = ''val_loss'', minDelta = 1 / 1000,
                                   patience = 5, mode = ''min''\<rparr>],
      verbose = 1\<rparr>"

subsection \<open>Concrete inputs\<close>

text \<open>
  A state with nothing allocated and no call made, whose store holds the arrays
  \<^verbatim>\<open>["#ffffff", "#ffffff"]\<close> at 0, \<^verbatim>\<open>["#000000", "#000000"]\<close> at 1,
  \<^verbatim>\<open>["#fff", "not-a-color"]\<close> at 2, \<^verbatim>\<open>["#000"]\<close> at 3, \<^verbatim>\<open>["not-a-color"]\<close> at 4,
  \<^verbatim>\<open>["#1A2b3c"]\<close> at 6, \<^verbatim>\<open>["#bad"]\<close> at 7 and the empty array elsewhere.
\<close>

definition example_state :: tf_state where
  "example_state =
     \<lparr>arrays = (\<lambda>a. [])
        (0 := [JSString ''#ffffff'', JSString ''#ffffff''],
         1 := [JSString ''#000000'', JSString ''#000000''],
         2 := [JSString ''#fff'', JSString ''not-a-color''],
         3 := [JSString ''#000''],
         4 := [JSString ''not-a-color''],
         6 := [JSString ''#1A2b3c''],
         7 := [JSString ''#bad'']),
      next_id = 0, live = {}, calls = []\<rparr>"

text \<open>A model whose forward pass returns one given score and whose training succeeds.\<close>

definition constant_model :: "jsnum \<Rightarrow> (unit, unit) engine" where
  "constant_model s =
     \<lparr>fit_fn = (\<lambda>w x y args. (Inr (), w)),
      predict_fn = (\<lambda>w input. Inr ((1, 1), [s]))\<rparr>"

text \<open>A model whose training and forward pass raise an error with a given message.\<close>

definition failing_model :: "string \<Rightarrow> (unit, unit) engine" where
  "failing_model m =
     \<lparr>fit_fn = (\<lambda>w x y args. (Inl (Error m), w)),
      predict_fn = (\<lambda>w input. Inl (Error m))\<rparr>"

text \<open>
  A model whose state counts its trainings and whose training returns, as its history,
  the options it was called with.
\<close>

definition echo_model :: "(nat, fit_args) engine" where
  "echo_model =
     \<lparr>fit_fn = (\<lambda>w x y args. (Inr args, Suc w)),
      predict_fn = (\<lambda>w input. Inr ((1, 1), [Num (1 / 2)]))\<rparr>"

section \<open>Properties of the colour codec\<close>

lemma hexToRgb_not_string: "\<forall>s. v \<noteq> JSString s \<Longrightarrow> hexToRgb v = None"
  by (cases v) (simp_all add: hexToRgb_def)

lemma hexToRgb_string:
  "hexToRgb (JSString s) = (if s = [] then None else channels (expand_shorthand (strip_hash s)))"
  by (cases s)
     (simp_all add: hexToRgb_def channels_def expand_shorthand_def strip_hash_def charAt_def
        substring_def split_units_def join_def Let_def map_replicate_const comp_def)

lemma length3: "length b = 3 \<longleftrightarrow> (\<exists>x y z. b = [x, y, z])"
  by (auto simp: eval_nat_numeral length_Suc_conv)

lemma length6: "length b = 6 \<longleftrightarrow> (\<exists>u v w x y z. b = [u, v, w, x, y, z])"
  by (auto simp: eval_nat_numeral length_Suc_conv)

lemma channels_None_iff:
  "channels (expand_shorthand b) = None \<longleftrightarrow>
     \<not> ((length b = 3 \<or> length b = 6) \<and> list_all hex_class b)"
  by (auto simp: channels_def expand_shorthand_def regex_exec_def length3 split: option.splits)

lemma hex_class_value: "hex_class c \<Longrightarrow> \<exists>d < 16. hex_digit_value c = Some d"
  by (auto simp: hex_class_def hex_digit_value_def)

lemma parseInt16_pair:
  "hex_digit_value a = Some d1 \<Longrightarrow> hex_digit_value b = Some d2 \<Longrightarrow>
     parseInt16 [a, b] = Num (real (16 * d1 + d2))"
  by (simp add: parseInt16_def)

lemma channels_six:
  assumes "map hex_digit_value [u, v, w, x, y, z] = [Some d1, Some d2, Some d3, Some d4, Some d5, Some d6]"
  shows "channels [u, v, w, x, y, z] =
     Some [Num (real (16 * d1 + d2) / 255), Num (real (16 * d3 + d4) / 255), Num (real (16 * d5 + d6) / 255)]"
proof -
  have "hex_class c" if "hex_digit_value c = Some d" for c d
    using that by (auto simp: hex_class_def hex_digit_value_def split: if_splits)
  then have "list_all hex_class [u, v, w, x, y, z]" using assms by simp
  then show ?thesis using assms
    by (simp add: channels_def regex_exec_def parseInt16_pair)
qed

lemma ascii_lower_hash: "ascii_lower c = CHR ''#'' \<longleftrightarrow> c = CHR ''#''"
  by (simp add: ascii_lower_def)

lemma hex_class_lower: "hex_class (ascii_lower c) = hex_class c"
  by (simp add: ascii_lower_def hex_class_def)

lemma hex_digit_value_lower: "hex_digit_value (ascii_lower c) = hex_digit_value c"
  by (simp add: ascii_lower_def hex_digit_value_def)


lemma parse_digits_lower: "parse_digits acc (map ascii_lower s) = parse_digits acc s"
  by (induction s arbitrary: acc) (simp_all add: hex_digit_value_lower split: option.splits)

lemma parseInt16_lower: "parseInt16 (map ascii_lower s) = parseInt16 s"
proof (cases s)
  case Nil
  then show ?thesis by (simp add: parseInt16_def)
next
  case (Cons c cs)
  have "parse_digits 0 (map ascii_lower (c # cs)) = parse_digits 0 (c # cs)"
    by (rule parse_digits_lower)
  then show ?thesis
    unfolding Cons parseInt16_def by (simp add: hex_digit_value_lower split: option.splits)
qed

lemma regex_exec_lower:
  "regex_exec (map ascii_lower e) = map_option (map (map ascii_lower)) (regex_exec e)"
  by (simp add: regex_exec_def list_all_iff hex_class_lower take_map drop_map)

lemma channels_lower: "channels (map ascii_lower e) = channels e"
proof (cases "regex_exec e")
  case None
  then show ?thesis by (simp add: channels_def regex_exec_lower)
next
  case (Some result)
  then have "length result = 4"
    by (auto simp: regex_exec_def split: if_splits)
  with Some show ?thesis
    by (simp add: channels_def regex_exec_lower parseInt16_lower)
qed

lemma strip_hash_lower: "strip_hash (map ascii_lower s) = map ascii_lower (strip_hash s)"
  by (cases s) (simp_all add: strip_hash_def ascii_lower_hash)

lemma expand_shorthand_lower:
  "expand_shorthand (map ascii_lower b) = map ascii_lower (expand_shorthand b)"
  by (simp add: expand_shorthand_def map_concat comp_def)

lemma hexToRgb_lower: "hexToRgb (JSString (map ascii_lower s)) = hexToRgb (JSString s)"
  by (simp add: hexToRgb_string strip_hash_lower expand_shorthand_lower channels_lower)

lemma hexToRgb_same_case:
  "map ascii_lower s = map ascii_lower t \<Longrightarrow> hexToRgb (JSString s) = hexToRgb (JSString t)"
  using hexToRgb_lower [of s] hexToRgb_lower [of t] by simp

lemma channels_Nil: "channels [] = None"
  by (simp add: channels_def regex_exec_def)

lemma hexToRgb_hash_prefix:
  "s = [] \<or> hd s \<noteq> CHR ''#'' \<Longrightarrow>
     hexToRgb (JSString (CHR ''#'' # s)) = hexToRgb (JSString s)"
  by (cases s) (auto simp: hexToRgb_string strip_hash_def expand_shorthand_def channels_Nil)

lemma hexToRgb_shorthand:
  "hexToRgb (JSString [a, b, c]) = hexToRgb (JSString [a, a, b, b, c, c])"
  by (simp add: hexToRgb_string strip_hash_def expand_shorthand_def channels_def regex_exec_def)

lemma hexToRgb_shorthand_hash:
  "hexToRgb (JSString [CHR ''#'', a, b, c]) = hexToRgb (JSString [CHR ''#'', a, a, b, b, c, c])"
  by (simp add: hexToRgb_string strip_hash_def expand_shorthand_def)

lemma hexToRgb_None_iff:
  "hexToRgb v = None \<longleftrightarrow>
     (\<forall>s. v \<noteq> JSString s) \<or> v = JSString [] \<or> (\<exists>s. v = JSString s \<and> \<not> matches_hex_pattern s)"
proof (cases "\<exists>s. v = JSString s")
  case True
  then obtain s where s: "v = JSString s" by blast
  show ?thesis
    unfolding s by (auto simp: hexToRgb_string channels_None_iff matches_hex_pattern_def strip_hash_def)
next
  case False
  then show ?thesis by (simp add: hexToRgb_not_string)
qed

lemma hexToRgb_Some_channels:
  assumes "hexToRgb v = Some rgb"
  obtains s d1 d2 d3 d4 d5 d6 where
    "v = JSString s"
    "map hex_digit_value (expand_shorthand (strip_hash s)) =
       [Some d1, Some d2, Some d3, Some d4, Some d5, Some d6]"
    "d1 < 16" "d2 < 16" "d3 < 16" "d4 < 16" "d5 < 16" "d6 < 16"
    "rgb = [Num (real (16 * d1 + d2) / 255), Num (real (16 * d3 + d4) / 255),
            Num (real (16 * d5 + d6) / 255)]"
proof -
  from assms obtain s where s: "v = JSString s"
    using hexToRgb_not_string [of v] by fastforce
  let ?e = "expand_shorthand (strip_hash s)"
  from assms s have ch: "channels ?e = Some rgb"
    by (simp add: hexToRgb_string split: if_splits)
  then have "length ?e = 6" "list_all hex_class ?e"
    by (auto simp: channels_def regex_exec_def split: if_splits)
  then obtain a b c d e f where e: "?e = [a, b, c, d, e, f]"
    and cl: "hex_class a" "hex_class b" "hex_class c" "hex_class d" "hex_class e" "hex_class f"
    by (auto simp: length6)
  from hex_class_value [OF cl(1)] obtain d1 where d1: "hex_digit_value a = Some d1" "d1 < 16"
    by blast
  from hex_class_value [OF cl(2)] obtain d2 where d2: "hex_digit_value b = Some d2" "d2 < 16"
    by blast
  from hex_class_value [OF cl(3)] obtain d3 where d3: "hex_digit_value c = Some d3" "d3 < 16"
    by blast
  from hex_class_value [OF cl(4)] obtain d4 where d4: "hex_digit_value d = Some d4" "d4 < 16"
    by blast
  from hex_class_value [OF cl(5)] obtain d5 where d5: "hex_digit_value e = Some d5" "d5 < 16"
    by blast
  from hex_class_value [OF cl(6)] obtain d6 where d6: "hex_digit_value f = Some d6" "d6 < 16"
    by blast
  from d1(1) d2(1) d3(1) d4(1) d5(1) d6(1)
  have m: "map hex_digit_value [a, b, c, d, e, f] =
      [Some d1, Some d2, Some d3, Some d4, Some d5, Some d6]" by simp
  from channels_six [OF m] ch e have
    r: "rgb = [Num (real (16 * d1 + d2) / 255), Num (real (16 * d3 + d4) / 255),
               Num (real (16 * d5 + d6) / 255)]" by simp
  from m e have m': "map hex_digit_value ?e =
      [Some d1, Some d2, Some d3, Some d4, Some d5, Some d6]" by simp
  show thesis
    by (rule that [OF s m' d1(2) d2(2) d3(2) d4(2) d5(2) d6(2) r])
qed

lemma channel_in_unit_interval:
  "d1 < 16 \<Longrightarrow> d2 < 16 \<Longrightarrow> in_unit_interval (Num (real (16 * d1 + d2) / 255))"
  by (simp add: in_unit_interval_def)

section \<open>Properties of the rounding to single precision\<close>

lemma find_upto_least:
  "i \<le> e \<Longrightarrow> e \<le> j \<Longrightarrow> P e \<Longrightarrow> (\<forall>k. i \<le> k \<and> k < e \<longrightarrow> \<not> P k) \<Longrightarrow>
     List.find P [i..j] = Some e"
proof (induction i j rule: upto.induct)
  case (1 i j)
  from 1(2,3) have ij: "i \<le> j" by simp
  show ?case
  proof (cases "i = e")
    case True
    with ij 1(4) show ?thesis by (simp add: upto_rec1)
  next
    case False
    with 1(2) have lt: "i < e" by simp
    with 1(5) have "\<not> P i" by simp
    moreover have "List.find P [i + 1..j] = Some e"
      using 1(1) [OF ij] lt 1(3,4,5) by simp
    ultimately show ?thesis using ij by (simp add: upto_rec1)
  qed
qed

lemma float32_exponent_eq:
  assumes "-126 \<le> e" "e \<le> 127" "e = -126 \<or> 2 powi e \<le> \<bar>x\<bar>" "\<bar>x\<bar> < 2 powi (e + 1)"
  shows "float32_exponent x = e"
proof -
  have "\<not> \<bar>x\<bar> < 2 powi (k + 1)" if "- 126 \<le> k" "k < e" for k
  proof -
    from that assms(3) have le: "2 powi e \<le> \<bar>x\<bar>" by auto
    from that have "k + 1 \<le> e" by simp
    then have "(2::real) powi (k + 1) \<le> 2 powi e"
      by (intro power_int_increasing) simp_all
    with le show ?thesis by simp
  qed
  then have "List.find (\<lambda>e. \<bar>x\<bar> < 2 powi (e + 1)) [-126..127] = Some e"
    using assms by (intro find_upto_least) simp_all
  then show ?thesis by (simp add: float32_exponent_def)
qed

lemma fround_real_eq:
  assumes "-126 \<le> e" "e \<le> 127" "e = -126 \<or> 2 powi e \<le> \<bar>x\<bar>" "\<bar>x\<bar> < 2 powi (e + 1)"
  shows "fround_real x = of_int (round_half_even (x / 2 powi (e - 23))) * 2 powi (e - 23)"
  by (simp add: fround_real_def Let_def float32_exponent_eq [OF assms])

lemma fround_real_zero: "fround_real 0 = 0"
  by (simp add: fround_real_def round_half_even_def)

lemma fround_real_one: "fround_real 1 = 1"
  by (subst fround_real_eq [of 0]) (simp_all add: round_half_even_def power_int_minus)

lemma fround_zero: "fround (Num 0) = Num 0"
  by (simp add: fround_real_zero)

lemma fround_one: "fround (Num 1) = Num 1"
  by (simp add: fround_real_one)

text \<open>The channels of \<^verbatim>\<open>"#1A2b3c"\<close> and of \<^verbatim>\<open>"#bad"\<close> in single precision.\<close>

lemma fround_real_26: "fround_real (26 / 255) = 13684945 / 134217728"
  by (subst fround_real_eq [of "-4"]) (simp_all add: round_half_even_def power_int_minus)

lemma fround_real_43: "fround_real (43 / 255) = 11316397 / 67108864"
  by (subst fround_real_eq [of "-3"]) (simp_all add: round_half_even_def power_int_minus)

lemma fround_real_60: "fround_real (60 / 255) = 15790321 / 67108864"
  by (subst fround_real_eq [of "-3"]) (simp_all add: round_half_even_def power_int_minus)

lemma fround_real_187: "fround_real (187 / 255) = 3075823 / 4194304"
  by (subst fround_real_eq [of "-1"]) (simp_all add: round_half_even_def power_int_minus)

lemma fround_real_170: "fround_real (170 / 255) = 11184811 / 16777216"
  by (subst fround_real_eq [of "-1"]) (simp_all add: round_half_even_def power_int_minus)

lemma fround_real_221: "fround_real (221 / 255) = 7270127 / 8388608"
  by (subst fround_real_eq [of "-1"]) (simp_all add: round_half_even_def power_int_minus)

lemma fround_channels:
  "fround (Num (26 / 255)) = Num (13684945 / 134217728)"
  "fround (Num (43 / 255)) = Num (11316397 / 67108864)"
  "fround (Num (60 / 255)) = Num (15790321 / 67108864)"
  "fround (Num (187 / 255)) = Num (3075823 / 4194304)"
  "fround (Num (170 / 255)) = Num (11184811 / 16777216)"
  "fround (Num (221 / 255)) = Num (7270127 / 8388608)"
  unfolding fround.simps jsnum.inject
  by (rule fround_real_26 fround_real_43 fround_real_60 fround_real_187 fround_real_170
      fround_real_221)+

section \<open>Properties of the preprocessor\<close>

lemma processed_vectors:
  "map the (filter (\<lambda>rgb. rgb \<noteq> None) (map hexToRgb cs)) = parseable_vectors cs"
  by (induction cs) (auto split: option.splits)

lemma processed_length:
  "length (filter (\<lambda>rgb. rgb \<noteq> None) (map hexToRgb cs)) = length (parseable_vectors cs)"
  using processed_vectors [of cs, THEN arg_cong, of length] by simp

lemma parseable_vectors_Nil_iff:
  "parseable_vectors cs = [] \<longleftrightarrow> (\<forall>c \<in> set cs. hexToRgb c = None)"
  by (induction cs) (auto split: option.splits)

lemma hexToRgb_length: "hexToRgb v = Some rgb \<Longrightarrow> length rgb = 3"
  by (auto simp: hexToRgb_def Let_def split: if_splits jsval.splits option.splits)

lemma parseable_vectors_width: "v \<in> set (parseable_vectors cs) \<Longrightarrow> length v = 3"
  by (induction cs) (auto split: option.splits dest: hexToRgb_length)

lemma rows_of_concat:
  "\<forall>r \<in> set rows. length r = w \<Longrightarrow> rows_of (length rows) w (concat rows) = rows"
  by (induction rows) simp_all

lemma rows_of_singletons: "rows_of (length vals) 1 vals = map (\<lambda>v. [v]) vals"
  by (induction vals) simp_all

lemma preprocessData_eq:
  "preprocessData selectedColors unselectedColors st =
     (if \<not> Array_isArray selectedColors \<or> \<not> Array_isArray unselectedColors
      then (Inl (Error ''Color arrays must be provided''), st)
      else if elements st selectedColors = [] \<or> elements st unselectedColors = []
      then (Inl (Error ''Both selected and unselected colors must contain data''), st)
      else if parseable_vectors (elements st selectedColors) = [] \<or>
              parseable_vectors (elements st unselectedColors) = []
      then (Inl (Error ''No valid colors found after processing''), st)
      else
        (Inr \<lparr>ds_xs = \<lparr>tid = next_id st,
                        shape = (length (parseable_vectors (elements st selectedColors)) +
                                 length (parseable_vectors (elements st unselectedColors)), 3),
                        tdata = map fround
                                  (concat (parseable_vectors (elements st selectedColors) @
                                           parseable_vectors (elements st unselectedColors)))\<rparr>,
              ds_ys = \<lparr>tid = Suc (next_id st),
                        shape = (length (parseable_vectors (elements st selectedColors)) +
                                 length (parseable_vectors (elements st unselectedColors)), 1),
                        tdata = replicate (length (parseable_vectors (elements st selectedColors))) (Num 1) @
                                replicate (length (parseable_vectors (elements st unselectedColors))) (Num 0)\<rparr>,
              totalSamples = length (parseable_vectors (elements st selectedColors)) +
                             length (parseable_vectors (elements st unselectedColors))\<rparr>,
         st\<lparr>next_id := Suc (Suc (next_id st)),
            live := insert (Suc (next_id st)) (insert (next_id st) (live st))\<rparr>))"
proof -
  let ?L = "parseable_vectors (elements st selectedColors)"
  let ?D = "parseable_vectors (elements st unselectedColors)"
  define ps where "ps = filter (\<lambda>rgb. rgb \<noteq> None) (map hexToRgb (elements st selectedColors))"
  define pu where "pu = filter (\<lambda>rgb. rgb \<noteq> None) (map hexToRgb (elements st unselectedColors))"
  have vs: "map the (ps @ pu) = ?L @ ?D"
    unfolding ps_def pu_def map_append processed_vectors ..
  have ls: "length ps = length ?L" "length pu = length ?D"
    unfolding ps_def pu_def by (rule processed_length)+
  have w: "(case ?L @ ?D of [] \<Rightarrow> 0 | r # _ \<Rightarrow> length r) = 3" if "?L \<noteq> []"
    using that parseable_vectors_width [of _ "elements st selectedColors"]
    by (cases ?L) auto
  have "preprocessData selectedColors unselectedColors st =
     (if \<not> Array_isArray selectedColors \<or> \<not> Array_isArray unselectedColors
      then (Inl (Error ''Color arrays must be provided''), st)
      else if length (elements st selectedColors) = 0 \<or> length (elements st unselectedColors) = 0
      then (Inl (Error ''Both selected and unselected colors must contain data''), st)
      else if length ps = 0 \<or> length pu = 0
           then (Inl (Error ''No valid colors found after processing''), st)
           else
             case tensor2d (map the (ps @ pu)) st of
               (x, st1) \<Rightarrow>
                 (case tensor2d_shaped
                         (replicate (length ps) (Num 1) @ replicate (length pu) (Num 0))
                         (length ps + length pu, 1) st1 of
                    (y, st2) \<Rightarrow>
                      (Inr \<lparr>ds_xs = x, ds_ys = y, totalSamples = length ps + length pu\<rparr>,
                       st2)))"
    by (simp only: preprocessData_def Let_def ps_def pu_def)
  then show ?thesis
    unfolding vs ls by (simp add: tensor2d_def tensor2d_shaped_def w fround_real_zero fround_real_one)
qed

lemma parseable_vectors_nonempty:
  "\<exists>c \<in> set cs. hexToRgb c \<noteq> None \<Longrightarrow> parseable_vectors cs \<noteq> []"
  by (simp add: parseable_vectors_Nil_iff)

lemma arraySync_rows:
  assumes "\<forall>r \<in> set rows. length r = w"
  shows "arraySync \<lparr>tid = i, shape = (length rows, w), tdata = map fround (concat rows)\<rparr> =
     map (map fround) rows"
proof -
  from assms have "\<forall>r \<in> set (map (map fround) rows). length r = w"
    by simp
  from rows_of_concat [OF this] show ?thesis
    by (simp add: arraySync_def map_concat)
qed

lemma arraySync_column:
  "arraySync \<lparr>tid = i, shape = (length vals, 1), tdata = vals\<rparr> = map (\<lambda>v. [v]) vals"
  using rows_of_singletons [of vals] by (simp add: arraySync_def)

lemma preprocessData_frame:
  "arrays (snd (preprocessData s u st)) = arrays st \<and>
   calls (snd (preprocessData s u st)) = calls st"
  by (simp add: preprocessData_eq)

section \<open>Properties of the trainer and the predictor\<close>

lemma trainModel_eq:
  "trainModel eng model s u config st =
     (case preprocessData s u st of
        (Inl error, st1) \<Rightarrow> (Inl (Error (''Training failed: '' @ message error)), model, st1)
      | (Inr tensors, st1) \<Rightarrow>
          (case fit_fn eng model (ds_xs tensors) (ds_ys tensors) (fit_options config) of
             (r, model') \<Rightarrow>
               ((case r of
                   Inl error \<Rightarrow> Inl (Error (''Training failed: '' @ message error))
                 | Inr history \<Rightarrow> Inr history),
                model',
                st1\<lparr>calls := calls st1 @
                        [FitCall (ds_xs tensors) (ds_ys tensors) (fit_options config)],
                    live := live st1 - {tid (ds_xs tensors)} - {tid (ds_ys tensors)}\<rparr>)))"
  by (simp add: trainModel_def Let_def model_fit_def fit_options_def dispose_def
      split: prod.splits sum.splits option.splits)

lemma predictColor_result_eq:
  assumes "hexToRgb color = Some rgb"
  shows "fst (predictColor eng model color st) =
     (case predict_fn eng model (fst (tensor2d [rgb] st)) of
        Inl e \<Rightarrow> Inl e
      | Inr (sh, vals) \<Rightarrow>
          Inr \<lparr>score = (case vals of [] \<Rightarrow> None | v # _ \<Rightarrow> Some v),
               confidence =
                 js_mul (Math_abs (js_sub (to_number (case vals of [] \<Rightarrow> None | v # _ \<Rightarrow> Some v))
                   (Num (1 / 2)))) (Num 2),
               likely = js_gt (to_number (case vals of [] \<Rightarrow> None | v # _ \<Rightarrow> Some v)) (Num (1 / 2)),
               prediction =
                 (if js_gt (to_number (case vals of [] \<Rightarrow> None | v # _ \<Rightarrow> Some v)) (Num (1 / 2))
                  then ''like'' else ''dislike'')\<rparr>)"
  using assms
  by (auto simp: predictColor_def model_predict_def tensor2d_def engine_tensor_def
      dataSync_def Let_def split: sum.splits prod.splits)

lemma predictColor_live:
  assumes "hexToRgb color = Some rgb"
  shows "live (snd (predictColor eng model color st)) =
     (case predict_fn eng model (fst (tensor2d [rgb] st)) of
        Inl e \<Rightarrow> live st - {next_id st}
      | Inr out \<Rightarrow> insert (Suc (next_id st)) (live st - {next_id st}))"
  using assms
  by (auto simp: predictColor_def model_predict_def tensor2d_def engine_tensor_def dispose_def
      Let_def split: sum.splits prod.splits)

lemma predictColor_calls:
  assumes "hexToRgb color = Some rgb"
  shows "calls (snd (predictColor eng model color st)) =
     calls st @ [PredictCall (fst (tensor2d [rgb] st))]"
  using assms
  by (auto simp: predictColor_def model_predict_def tensor2d_def engine_tensor_def dispose_def
      Let_def split: sum.splits prod.splits)

section \<open>The concrete inputs evaluated\<close>

lemma hexToRgb_white6: "hexToRgb (JSString ''#ffffff'') = Some [Num 1, Num 1, Num 1]"
  by (simp add: hexToRgb_string strip_hash_def expand_shorthand_def channels_def regex_exec_def
      hex_class_def parseInt16_def hex_digit_value_def)

lemma hexToRgb_black6: "hexToRgb (JSString ''#000000'') = Some [Num 0, Num 0, Num 0]"
  by (simp add: hexToRgb_string strip_hash_def expand_shorthand_def channels_def regex_exec_def
      hex_class_def parseInt16_def hex_digit_value_def)

lemma hexToRgb_white3: "hexToRgb (JSString ''#fff'') = Some [Num 1, Num 1, Num 1]"
  by (simp add: hexToRgb_string strip_hash_def expand_shorthand_def channels_def regex_exec_def
      hex_class_def parseInt16_def hex_digit_value_def)

lemma hexToRgb_black3: "hexToRgb (JSString ''#000'') = Some [Num 0, Num 0, Num 0]"
  by (simp add: hexToRgb_string strip_hash_def expand_shorthand_def channels_def regex_exec_def
      hex_class_def parseInt16_def hex_digit_value_def)

lemma hexToRgb_not_a_color: "hexToRgb (JSString ''not-a-color'') = None"
  by (simp add: hexToRgb_string strip_hash_def expand_shorthand_def channels_def regex_exec_def)

lemma hexToRgb_1A2b3c:
  "hexToRgb (JSString ''#1A2b3c'') = Some [Num (26 / 255), Num (43 / 255), Num (60 / 255)]"
  by (simp add: hexToRgb_string strip_hash_def expand_shorthand_def channels_def regex_exec_def
      hex_class_def parseInt16_def hex_digit_value_def)

lemma hexToRgb_bad:
  "hexToRgb (JSString ''#bad'') = Some [Num (187 / 255), Num (170 / 255), Num (221 / 255)]"
  by (simp add: hexToRgb_string strip_hash_def expand_shorthand_def channels_def regex_exec_def
      hex_class_def parseInt16_def hex_digit_value_def)

lemma example_arrays:
  "arrays example_state 0 = [JSString ''#ffffff'', JSString ''#ffffff'']"
  "arrays example_state 1 = [JSString ''#000000'', JSString ''#000000'']"
  "arrays example_state 2 = [JSString ''#fff'', JSString ''not-a-color'']"
  "arrays example_state 3 = [JSString ''#000'']"
  "arrays example_state 4 = [JSString ''not-a-color'']"
  "arrays example_state 5 = []"
  "arrays example_state (Suc 0) = [JSString ''#000000'', JSString ''#000000'']"
  "arrays example_state 6 = [JSString ''#1A2b3c'']"
  "arrays example_state 7 = [JSString ''#bad'']"
  by (simp_all add: example_state_def)

lemma example_fields:
  "next_id example_state = 0" "live example_state = {}" "calls example_state = []"
  by (simp_all add: example_state_def)

lemma example_dataset:
  "fst (preprocessData (JSArrayRef 0) (JSArrayRef 1) example_state) =
     Inr \<lparr>ds_xs = \<lparr>tid = 0, shape = (4, 3),
                    tdata = [Num 1, Num 1, Num 1, Num 1, Num 1, Num 1,
                             Num 0, Num 0, Num 0, Num 0, Num 0, Num 0]\<rparr>,
          ds_ys = \<lparr>tid = 1, shape = (4, 1), tdata = [Num 1, Num 1, Num 0, Num 0]\<rparr>,
          totalSamples = 4\<rparr>"
  by (simp add: preprocessData_eq Array_isArray_def elements_def example_arrays example_fields
      hexToRgb_white6 hexToRgb_black6 fround_real_zero fround_real_one)

lemma example_vectors:
  "parseable_vectors (arrays example_state 6) = [[Num (26 / 255), Num (43 / 255), Num (60 / 255)]]"
  "parseable_vectors (arrays example_state 7) = [[Num (187 / 255), Num (170 / 255), Num (221 / 255)]]"
  unfolding example_arrays parseable_vectors.simps hexToRgb_1A2b3c hexToRgb_bad option.case
  by (rule refl)+

lemma example_rounded_dataset:
  "fst (preprocessData (JSArrayRef 6) (JSArrayRef 7) example_state) =
     Inr \<lparr>ds_xs = \<lparr>tid = 0, shape = (2, 3),
                    tdata = [Num (13684945 / 134217728), Num (11316397 / 67108864),
                             Num (15790321 / 67108864), Num (3075823 / 4194304),
                             Num (11184811 / 16777216), Num (7270127 / 8388608)]\<rparr>,
          ds_ys = \<lparr>tid = 1, shape = (2, 1), tdata = [Num 1, Num 0]\<rparr>,
          totalSamples = 2\<rparr>"
proof -
  have e: "elements example_state (JSArrayRef 6) = arrays example_state 6"
    "elements example_state (JSArrayRef 7) = arrays example_state 7"
    by (simp_all add: elements_def)
  have r: "map fround (concat ([[Num (26 / 255), Num (43 / 255), Num (60 / 255)]] @
        [[Num (187 / 255), Num (170 / 255), Num (221 / 255)]])) =
      [Num (13684945 / 134217728), Num (11316397 / 67108864), Num (15790321 / 67108864),
       Num (3075823 / 4194304), Num (11184811 / 16777216), Num (7270127 / 8388608)]"
    unfolding append.simps concat.simps list.map fround_channels ..
  show ?thesis
    unfolding preprocessData_eq e example_vectors r
    by (simp add: Array_isArray_def example_arrays example_fields)
qed

section \<open>The claims about the colour codec\<close>

text \<open>
  Claim C6. \<^verbatim>\<open>hexToRgb\<close> is defined on every value and raises nothing: its result is
  \<^verbatim>\<open>null\<close> or a vector. It is \<^verbatim>\<open>null\<close> exactly when the argument is not a
  string, is the empty string, or is a string that does not consist of three or six
  hexadecimal digits of either case after an optional leading \<open>#\<close>. Every vector it
  returns has three entries; they are the values of the first, second and third pair of
  digits of the six-digit form of the string, each divided by 255, and each lies between
  0 and 1.
\<close>

theorem hexToRgb_null_iff_and_channels:
  "(hexToRgb v = None \<longleftrightarrow>
      (\<forall>s. v \<noteq> JSString s) \<or> v = JSString [] \<or>
      (\<exists>s. v = JSString s \<and> \<not> matches_hex_pattern s)) \<and>
   (\<forall>rgb. hexToRgb v = Some rgb \<longrightarrow>
      (\<exists>s d1 d2 d3 d4 d5 d6. v = JSString s \<and>
         map hex_digit_value (expand_shorthand (strip_hash s)) =
           [Some d1, Some d2, Some d3, Some d4, Some d5, Some d6] \<and>
         rgb = [Num (real (16 * d1 + d2) / 255), Num (real (16 * d3 + d4) / 255),
                Num (real (16 * d5 + d6) / 255)]) \<and>
      length rgb = 3 \<and> list_all in_unit_interval rgb)"
proof (intro conjI allI impI)
  show "hexToRgb v = None \<longleftrightarrow>
      (\<forall>s. v \<noteq> JSString s) \<or> v = JSString [] \<or>
      (\<exists>s. v = JSString s \<and> \<not> matches_hex_pattern s)"
    by (rule hexToRgb_None_iff)
next
  fix rgb assume a: "hexToRgb v = Some rgb"
  from a obtain s d1 d2 d3 d4 d5 d6 where
    *: "v = JSString s"
       "map hex_digit_value (expand_shorthand (strip_hash s)) =
          [Some d1, Some d2, Some d3, Some d4, Some d5, Some d6]"
       "d1 < 16" "d2 < 16" "d3 < 16" "d4 < 16" "d5 < 16" "d6 < 16"
       "rgb = [Num (real (16 * d1 + d2) / 255), Num (real (16 * d3 + d4) / 255),
               Num (real (16 * d5 + d6) / 255)]"
    by (rule hexToRgb_Some_channels)
  show "\<exists>s d1 d2 d3 d4 d5 d6. v = JSString s \<and>
         map hex_digit_value (expand_shorthand (strip_hash s)) =
           [Some d1, Some d2, Some d3, Some d4, Some d5, Some d6] \<and>
         rgb = [Num (real (16 * d1 + d2) / 255), Num (real (16 * d3 + d4) / 255),
                Num (real (16 * d5 + d6) / 255)]"
    by (intro exI conjI) (rule *(1), rule *(2), rule *(9))
  show "length rgb = 3"
    unfolding *(9) by simp
  show "list_all in_unit_interval rgb"
    unfolding *(9)
    using channel_in_unit_interval [OF *(3) *(4)] channel_in_unit_interval [OF *(5) *(6)]
      channel_in_unit_interval [OF *(7) *(8)]
    by (simp only: list.pred_inject simp_thms)
qed

text \<open>
  The theorem at \<^verbatim>\<open>"not-a-color"\<close>, \<^verbatim>\<open>null\<close>, \<^verbatim>\<open>123\<close>, the empty string and
  \<^verbatim>\<open>"#1A2b3c"\<close>.
\<close>

theorem hexToRgb_null_iff_and_channels_witness:
  "hexToRgb (JSString ''not-a-color'') = None \<and>
   hexToRgb JSNull = None \<and>
   hexToRgb (JSNumber (Num 123)) = None \<and>
   hexToRgb (JSString []) = None \<and>
   hexToRgb (JSString ''#1A2b3c'') = Some [Num (26 / 255), Num (43 / 255), Num (60 / 255)] \<and>
   list_all in_unit_interval [Num (26 / 255), Num (43 / 255), Num (60 / 255)]"
proof -
  note t = hexToRgb_null_iff_and_channels
  have ev: "hexToRgb (JSString ''#1A2b3c'') = Some [Num (26 / 255), Num (43 / 255), Num (60 / 255)]"
    by (simp add: hexToRgb_string strip_hash_def expand_shorthand_def channels_def regex_exec_def
        hex_class_def parseInt16_def hex_digit_value_def)
  have "\<not> matches_hex_pattern ''not-a-color''"
    by (simp add: matches_hex_pattern_def strip_hash_def)
  then have 1: "hexToRgb (JSString ''not-a-color'') = None"
    using t [of "JSString ''not-a-color''", THEN conjunct1] by simp
  have 2: "hexToRgb JSNull = None"
    using t [of JSNull, THEN conjunct1] by simp
  have 3: "hexToRgb (JSNumber (Num 123)) = None"
    using t [of "JSNumber (Num 123)", THEN conjunct1] by simp
  have 4: "hexToRgb (JSString []) = None"
    using t [of "JSString []", THEN conjunct1] by simp
  have 5: "list_all in_unit_interval [Num (26 / 255), Num (43 / 255), Num (60 / 255)]"
    by (rule t [of "JSString ''#1A2b3c''", THEN conjunct2, THEN spec, THEN mp, OF ev,
          THEN conjunct2, THEN conjunct2])
  from 1 2 3 4 ev 5 show ?thesis by (intro conjI)
qed

text \<open>
  Claim C7. \<^verbatim>\<open>hexToRgb\<close> is a function of its argument alone. A leading \<open>#\<close> before
  a string that does not itself begin with \<open>#\<close> does not change the result; two strings
  that differ only in the case of their letters have the same result; a string of three
  units has the result of the string in which each unit is doubled, with and without a
  leading \<open>#\<close>; and \<^verbatim>\<open>"#fff"\<close> and \<^verbatim>\<open>"ffffff"\<close> both give \<open>[1, 1, 1]\<close>.
\<close>

theorem hexToRgb_case_and_prefix_insensitive:
  "(\<forall>s. s = [] \<or> hd s \<noteq> CHR ''#'' \<longrightarrow>
      hexToRgb (JSString (CHR ''#'' # s)) = hexToRgb (JSString s)) \<and>
   (\<forall>s t. map ascii_lower s = map ascii_lower t \<longrightarrow>
      hexToRgb (JSString s) = hexToRgb (JSString t)) \<and>
   (\<forall>a b c. hexToRgb (JSString [a, b, c]) = hexToRgb (JSString [a, a, b, b, c, c]) \<and>
      hexToRgb (JSString [CHR ''#'', a, b, c]) =
        hexToRgb (JSString [CHR ''#'', a, a, b, b, c, c])) \<and>
   hexToRgb (JSString ''#fff'') = Some [Num 1, Num 1, Num 1] \<and>
   hexToRgb (JSString ''ffffff'') = Some [Num 1, Num 1, Num 1]"
proof (intro conjI allI impI)
  fix s :: string assume "s = [] \<or> hd s \<noteq> CHR ''#''"
  then show "hexToRgb (JSString (CHR ''#'' # s)) = hexToRgb (JSString s)"
    by (rule hexToRgb_hash_prefix)
next
  fix s t assume "map ascii_lower s = map ascii_lower t"
  then show "hexToRgb (JSString s) = hexToRgb (JSString t)"
    by (rule hexToRgb_same_case)
next
  fix a b c
  show "hexToRgb (JSString [a, b, c]) = hexToRgb (JSString [a, a, b, b, c, c])"
    by (rule hexToRgb_shorthand)
  show "hexToRgb (JSString [CHR ''#'', a, b, c]) =
        hexToRgb (JSString [CHR ''#'', a, a, b, b, c, c])"
    by (rule hexToRgb_shorthand_hash)
next
  show "hexToRgb (JSString ''#fff'') = Some [Num 1, Num 1, Num 1]"
    by (simp add: hexToRgb_string strip_hash_def expand_shorthand_def channels_def regex_exec_def
        hex_class_def parseInt16_def hex_digit_value_def)
  show "hexToRgb (JSString ''ffffff'') = Some [Num 1, Num 1, Num 1]"
    by (simp add: hexToRgb_string strip_hash_def expand_shorthand_def channels_def regex_exec_def
        hex_class_def parseInt16_def hex_digit_value_def)
qed

text \<open>
  The theorem at \<^verbatim>\<open>"#1A2b3c"\<close> against \<^verbatim>\<open>"1a2B3C"\<close>, \<^verbatim>\<open>"#FA0"\<close> against
  \<^verbatim>\<open>"ffaa00"\<close>, and \<^verbatim>\<open>"#fff"\<close> against \<^verbatim>\<open>"ffffff"\<close>.
\<close>

theorem hexToRgb_case_and_prefix_insensitive_witness:
  "hexToRgb (JSString ''#1A2b3c'') = hexToRgb (JSString ''1a2B3C'') \<and>
   hexToRgb (JSString ''#FA0'') = hexToRgb (JSString ''ffaa00'') \<and>
   hexToRgb (JSString ''#fff'') = hexToRgb (JSString ''ffffff'')"
proof -
  note t = hexToRgb_case_and_prefix_insensitive
  note prefix = t [THEN conjunct1, THEN spec, THEN mp]
  note letter_case = t [THEN conjunct2, THEN conjunct1, THEN spec, THEN spec, THEN mp]
  note shorthand = t [THEN conjunct2, THEN conjunct2, THEN conjunct1, THEN spec, THEN spec,
      THEN spec, THEN conjunct2]
  have "hexToRgb (JSString ''#1A2b3c'') = hexToRgb (JSString ''1A2b3c'')"
    by (rule prefix) simp
  also have "\<dots> = hexToRgb (JSString ''1a2B3C'')"
    by (rule letter_case) (simp add: ascii_lower_def)
  finally have 1: "hexToRgb (JSString ''#1A2b3c'') = hexToRgb (JSString ''1a2B3C'')" .
  have "hexToRgb (JSString ''#FA0'') = hexToRgb (JSString ''#FFAA00'')"
    by (rule shorthand)
  also have "\<dots> = hexToRgb (JSString ''FFAA00'')"
    by (rule prefix) simp
  also have "\<dots> = hexToRgb (JSString ''ffaa00'')"
    by (rule letter_case) (simp add: ascii_lower_def)
  finally have 2: "hexToRgb (JSString ''#FA0'') = hexToRgb (JSString ''ffaa00'')" .
  have "hexToRgb (JSString ''#fff'') = hexToRgb (JSString ''fff'')"
    by (rule prefix) simp
  also have "\<dots> = hexToRgb (JSString ''ffffff'')"
    by (rule t [THEN conjunct2, THEN conjunct2, THEN conjunct1, THEN spec, THEN spec,
          THEN spec, THEN conjunct1])
  finally have 3: "hexToRgb (JSString ''#fff'') = hexToRgb (JSString ''ffffff'')" .
  from 1 2 3 show ?thesis by (intro conjI)
qed

section \<open>The claims about the preprocessor\<close>

text \<open>
  Claim C4, as the specification states it, says that the inputs of the dataset are the
  vectors of the entries that parse. They are not: the input tensor is of the type
  \<^verbatim>\<open>float32\<close>, and holds the channels rounded to single precision. For
  \<^verbatim>\<open>["#1A2b3c"]\<close> and \<^verbatim>\<open>["#bad"]\<close> the first channel of the first vector is
  \<open>26 / 255\<close>, and the first value of the input tensor is \<open>13684945 / 134217728\<close>, which
  is 0.10196078568696976.
\<close>

theorem preprocessData_rows_counterexample:
  "fst (preprocessData (JSArrayRef 6) (JSArrayRef 7) example_state) =
     Inr \<lparr>ds_xs = \<lparr>tid = 0, shape = (2, 3),
                    tdata = [Num (13684945 / 134217728), Num (11316397 / 67108864),
                             Num (15790321 / 67108864), Num (3075823 / 4194304),
                             Num (11184811 / 16777216), Num (7270127 / 8388608)]\<rparr>,
          ds_ys = \<lparr>tid = 1, shape = (2, 1), tdata = [Num 1, Num 0]\<rparr>,
          totalSamples = 2\<rparr> \<and>
   parseable_vectors (arrays example_state 6) @ parseable_vectors (arrays example_state 7) =
     [[Num (26 / 255), Num (43 / 255), Num (60 / 255)],
      [Num (187 / 255), Num (170 / 255), Num (221 / 255)]] \<and>
   arraySync \<lparr>tid = 0, shape = (2, 3),
               tdata = [Num (13684945 / 134217728), Num (11316397 / 67108864),
                        Num (15790321 / 67108864), Num (3075823 / 4194304),
                        Num (11184811 / 16777216), Num (7270127 / 8388608)]\<rparr> \<noteq>
     [[Num (26 / 255), Num (43 / 255), Num (60 / 255)],
      [Num (187 / 255), Num (170 / 255), Num (221 / 255)]]"
proof (intro conjI)
  show "fst (preprocessData (JSArrayRef 6) (JSArrayRef 7) example_state) =
     Inr \<lparr>ds_xs = \<lparr>tid = 0, shape = (2, 3),
                    tdata = [Num (13684945 / 134217728), Num (11316397 / 67108864),
                             Num (15790321 / 67108864), Num (3075823 / 4194304),
                             Num (11184811 / 16777216), Num (7270127 / 8388608)]\<rparr>,
          ds_ys = \<lparr>tid = 1, shape = (2, 1), tdata = [Num 1, Num 0]\<rparr>,
          totalSamples = 2\<rparr>"
    by (rule example_rounded_dataset)
  show "parseable_vectors (arrays example_state 6) @ parseable_vectors (arrays example_state 7) =
     [[Num (26 / 255), Num (43 / 255), Num (60 / 255)],
      [Num (187 / 255), Num (170 / 255), Num (221 / 255)]]"
    unfolding example_vectors by simp
  show "arraySync \<lparr>tid = 0, shape = (2, 3),
               tdata = [Num (13684945 / 134217728), Num (11316397 / 67108864),
                        Num (15790321 / 67108864), Num (3075823 / 4194304),
                        Num (11184811 / 16777216), Num (7270127 / 8388608)]\<rparr> \<noteq>
     [[Num (26 / 255), Num (43 / 255), Num (60 / 255)],
      [Num (187 / 255), Num (170 / 255), Num (221 / 255)]]"
    by (simp add: arraySync_def numeral_2_eq_2 numeral_3_eq_3)
qed

text \<open>
  Claim C4, amended. When each of the two arrays holds at least one entry that parses,
  \<^verbatim>\<open>preprocessData\<close> returns a dataset. The rows of its input tensor are the vectors
  of the liked entries that parse, in their order, followed by those of the disliked
  entries that parse, in their order, each channel rounded to single precision; the rows
  of its label tensor are a 1 for each of the former followed by a 0 for each of the
  latter; the two tensors have as many rows as each other, and at least one; and the count
  of samples is the number of liked entries that parse plus the number of disliked entries
  that parse. An entry that does not parse contributes nothing and raises nothing.
\<close>

theorem preprocessData_dataset:
  assumes "\<exists>c \<in> set (arrays st a). hexToRgb c \<noteq> None"
    and "\<exists>c \<in> set (arrays st b). hexToRgb c \<noteq> None"
  shows "\<exists>d. fst (preprocessData (JSArrayRef a) (JSArrayRef b) st) = Inr d \<and>
     arraySync (ds_xs d) =
       map (map fround) (parseable_vectors (arrays st a) @ parseable_vectors (arrays st b)) \<and>
     arraySync (ds_ys d) =
       replicate (length (parseable_vectors (arrays st a))) [Num 1] @
       replicate (length (parseable_vectors (arrays st b))) [Num 0] \<and>
     length (arraySync (ds_xs d)) = length (arraySync (ds_ys d)) \<and>
     0 < length (arraySync (ds_xs d)) \<and>
     totalSamples d =
       length (parseable_vectors (arrays st a)) + length (parseable_vectors (arrays st b))"
proof -
  let ?L = "parseable_vectors (arrays st a)"
  let ?D = "parseable_vectors (arrays st b)"
  let ?x = "\<lparr>tid = next_id st, shape = (length ?L + length ?D, 3),
             tdata = map fround (concat (?L @ ?D))\<rparr>"
  let ?y = "\<lparr>tid = Suc (next_id st), shape = (length ?L + length ?D, 1),
             tdata = replicate (length ?L) (Num 1) @ replicate (length ?D) (Num 0)\<rparr>"
  let ?d = "\<lparr>ds_xs = ?x, ds_ys = ?y, totalSamples = length ?L + length ?D\<rparr>"
  from assms have ne: "?L \<noteq> []" "?D \<noteq> []"
    by (simp_all add: parseable_vectors_nonempty)
  then have ne': "arrays st a \<noteq> []" "arrays st b \<noteq> []"
    by auto
  from ne ne' have r: "fst (preprocessData (JSArrayRef a) (JSArrayRef b) st) = Inr ?d"
    by (simp add: preprocessData_eq Array_isArray_def elements_def)
  have "\<forall>r \<in> set (?L @ ?D). length r = 3"
    by (auto dest: parseable_vectors_width)
  from arraySync_rows [OF this, of "next_id st"]
  have x: "arraySync ?x = map (map fround) (?L @ ?D)" by simp
  from arraySync_column [of "Suc (next_id st)"
      "replicate (length ?L) (Num 1) @ replicate (length ?D) (Num 0)"]
  have y: "arraySync ?y = replicate (length ?L) [Num 1] @ replicate (length ?D) [Num 0]"
    by simp
  from ne have pos: "0 < length (?L @ ?D)" by simp
  show ?thesis
  proof (intro exI conjI)
    show "fst (preprocessData (JSArrayRef a) (JSArrayRef b) st) = Inr ?d" by (rule r)
    show "arraySync (ds_xs ?d) = map (map fround) (?L @ ?D)" using x by simp
    show "arraySync (ds_ys ?d) =
        replicate (length ?L) [Num 1] @ replicate (length ?D) [Num 0]"
      using y by simp
    show "length (arraySync (ds_xs ?d)) = length (arraySync (ds_ys ?d))"
      using x y by simp
    show "0 < length (arraySync (ds_xs ?d))" using x pos by simp
    show "totalSamples ?d = length ?L + length ?D" by simp
  qed
qed

text \<open>
  The theorem at \<^verbatim>\<open>["#ffffff", "#ffffff"]\<close> and \<^verbatim>\<open>["#000000", "#000000"]\<close>: four
  samples, two labelled 1 before two labelled 0. At \<^verbatim>\<open>["#fff", "not-a-color"]\<close> and
  \<^verbatim>\<open>["#000"]\<close>: two samples, the entry that does not parse being dropped. And at
  \<^verbatim>\<open>["#1A2b3c"]\<close> and \<^verbatim>\<open>["#bad"]\<close>, whose channels change when they are rounded.
\<close>

theorem preprocessData_dataset_witness:
  "(\<exists>d. fst (preprocessData (JSArrayRef 0) (JSArrayRef 1) example_state) = Inr d \<and>
     arraySync (ds_xs d) =
       [[Num 1, Num 1, Num 1], [Num 1, Num 1, Num 1], [Num 0, Num 0, Num 0], [Num 0, Num 0, Num 0]] \<and>
     arraySync (ds_ys d) = [[Num 1], [Num 1], [Num 0], [Num 0]] \<and>
     totalSamples d = 4) \<and>
   (\<exists>d. fst (preprocessData (JSArrayRef 2) (JSArrayRef 3) example_state) = Inr d \<and>
     arraySync (ds_xs d) = [[Num 1, Num 1, Num 1], [Num 0, Num 0, Num 0]] \<and>
     arraySync (ds_ys d) = [[Num 1], [Num 0]] \<and>
     totalSamples d = 2) \<and>
   (\<exists>d. fst (preprocessData (JSArrayRef 6) (JSArrayRef 7) example_state) = Inr d \<and>
     arraySync (ds_xs d) =
       [[Num (13684945 / 134217728), Num (11316397 / 67108864), Num (15790321 / 67108864)],
        [Num (3075823 / 4194304), Num (11184811 / 16777216), Num (7270127 / 8388608)]] \<and>
     arraySync (ds_ys d) = [[Num 1], [Num 0]] \<and>
     totalSamples d = 2)"
proof (intro conjI)
  have a: "\<exists>c \<in> set (arrays example_state 0). hexToRgb c \<noteq> None"
    by (simp add: example_arrays hexToRgb_white6)
  have b: "\<exists>c \<in> set (arrays example_state 1). hexToRgb c \<noteq> None"
    by (simp add: example_arrays hexToRgb_black6)
  have L: "parseable_vectors (arrays example_state 0) = [[Num 1, Num 1, Num 1], [Num 1, Num 1, Num 1]]"
    by (simp add: example_arrays hexToRgb_white6)
  have D: "parseable_vectors (arrays example_state 1) = [[Num 0, Num 0, Num 0], [Num 0, Num 0, Num 0]]"
    by (simp add: example_arrays hexToRgb_black6)
  from preprocessData_dataset [OF a b] obtain d where
    d: "fst (preprocessData (JSArrayRef 0) (JSArrayRef 1) example_state) = Inr d"
      "arraySync (ds_xs d) =
         map (map fround)
           (parseable_vectors (arrays example_state 0) @ parseable_vectors (arrays example_state 1))"
      "arraySync (ds_ys d) =
         replicate (length (parseable_vectors (arrays example_state 0))) [Num 1] @
         replicate (length (parseable_vectors (arrays example_state 1))) [Num 0]"
      "totalSamples d =
         length (parseable_vectors (arrays example_state 0)) +
         length (parseable_vectors (arrays example_state 1))"
    by (elim exE conjE)
  show "\<exists>d. fst (preprocessData (JSArrayRef 0) (JSArrayRef 1) example_state) = Inr d \<and>
     arraySync (ds_xs d) =
       [[Num 1, Num 1, Num 1], [Num 1, Num 1, Num 1], [Num 0, Num 0, Num 0], [Num 0, Num 0, Num 0]] \<and>
     arraySync (ds_ys d) = [[Num 1], [Num 1], [Num 0], [Num 0]] \<and>
     totalSamples d = 4"
  proof (intro exI conjI)
    show "fst (preprocessData (JSArrayRef 0) (JSArrayRef 1) example_state) = Inr d" by (rule d(1))
    show "arraySync (ds_xs d) =
       [[Num 1, Num 1, Num 1], [Num 1, Num 1, Num 1], [Num 0, Num 0, Num 0], [Num 0, Num 0, Num 0]]"
      unfolding d(2) L D by (simp add: fround_real_zero fround_real_one)
    show "arraySync (ds_ys d) = [[Num 1], [Num 1], [Num 0], [Num 0]]"
      unfolding d(3) L D by (simp add: numeral_2_eq_2)
    show "totalSamples d = 4"
      unfolding d(4) L D by simp
  qed
next
  have a: "\<exists>c \<in> set (arrays example_state 2). hexToRgb c \<noteq> None"
    by (simp add: example_arrays hexToRgb_white3)
  have b: "\<exists>c \<in> set (arrays example_state 3). hexToRgb c \<noteq> None"
    by (simp add: example_arrays hexToRgb_black3)
  have L: "parseable_vectors (arrays example_state 2) = [[Num 1, Num 1, Num 1]]"
    by (simp add: example_arrays hexToRgb_white3 hexToRgb_not_a_color)
  have D: "parseable_vectors (arrays example_state 3) = [[Num 0, Num 0, Num 0]]"
    by (simp add: example_arrays hexToRgb_black3)
  from preprocessData_dataset [OF a b] obtain d where
    d: "fst (preprocessData (JSArrayRef 2) (JSArrayRef 3) example_state) = Inr d"
      "arraySync (ds_xs d) =
         map (map fround)
           (parseable_vectors (arrays example_state 2) @ parseable_vectors (arrays example_state 3))"
      "arraySync (ds_ys d) =
         replicate (length (parseable_vectors (arrays example_state 2))) [Num 1] @
         replicate (length (parseable_vectors (arrays example_state 3))) [Num 0]"
      "totalSamples d =
         length (parseable_vectors (arrays example_state 2)) +
         length (parseable_vectors (arrays example_state 3))"
    by (elim exE conjE)
  show "\<exists>d. fst (preprocessData (JSArrayRef 2) (JSArrayRef 3) example_state) = Inr d \<and>
     arraySync (ds_xs d) = [[Num 1, Num 1, Num 1], [Num 0, Num 0, Num 0]] \<and>
     arraySync (ds_ys d) = [[Num 1], [Num 0]] \<and>
     totalSamples d = 2"
  proof (intro exI conjI)
    show "fst (preprocessData (JSArrayRef 2) (JSArrayRef 3) example_state) = Inr d" by (rule d(1))
    show "arraySync (ds_xs d) = [[Num 1, Num 1, Num 1], [Num 0, Num 0, Num 0]]"
      unfolding d(2) L D by (simp add: fround_real_zero fround_real_one)
    show "arraySync (ds_ys d) = [[Num 1], [Num 0]]"
      unfolding d(3) L D by simp
    show "totalSamples d = 2"
      unfolding d(4) L D by simp
  qed
next
  have a: "\<exists>c \<in> set (arrays example_state 6). hexToRgb c \<noteq> None"
    by (simp add: example_arrays hexToRgb_1A2b3c)
  have b: "\<exists>c \<in> set (arrays example_state 7). hexToRgb c \<noteq> None"
    by (simp add: example_arrays hexToRgb_bad)
  from preprocessData_dataset [OF a b] obtain d where
    d: "fst (preprocessData (JSArrayRef 6) (JSArrayRef 7) example_state) = Inr d"
      "arraySync (ds_xs d) =
         map (map fround)
           (parseable_vectors (arrays example_state 6) @ parseable_vectors (arrays example_state 7))"
      "arraySync (ds_ys d) =
         replicate (length (parseable_vectors (arrays example_state 6))) [Num 1] @
         replicate (length (parseable_vectors (arrays example_state 7))) [Num 0]"
      "totalSamples d =
         length (parseable_vectors (arrays example_state 6)) +
         length (parseable_vectors (arrays example_state 7))"
    by (elim exE conjE)
  show "\<exists>d. fst (preprocessData (JSArrayRef 6) (JSArrayRef 7) example_state) = Inr d \<and>
     arraySync (ds_xs d) =
       [[Num (13684945 / 134217728), Num (11316397 / 67108864), Num (15790321 / 67108864)],
        [Num (3075823 / 4194304), Num (11184811 / 16777216), Num (7270127 / 8388608)]] \<and>
     arraySync (ds_ys d) = [[Num 1], [Num 0]] \<and>
     totalSamples d = 2"
  proof (intro exI conjI)
    show "fst (preprocessData (JSArrayRef 6) (JSArrayRef 7) example_state) = Inr d" by (rule d(1))
    show "arraySync (ds_xs d) =
       [[Num (13684945 / 134217728), Num (11316397 / 67108864), Num (15790321 / 67108864)],
        [Num (3075823 / 4194304), Num (11184811 / 16777216), Num (7270127 / 8388608)]]"
      unfolding d(2) example_vectors append.simps list.map fround_channels ..
    show "arraySync (ds_ys d) = [[Num 1], [Num 0]]"
      unfolding d(3) example_vectors by simp
    show "totalSamples d = 2"
      unfolding d(4) example_vectors by simp
  qed
qed

text \<open>
  Claim C5. \<^verbatim>\<open>preprocessData\<close> raises one of its two input-validation errors exactly
  when an argument is not an array or an array is empty. For two non-empty arrays it
  raises its data error exactly when one of them holds no entry that parses. Whenever
  both arrays hold an entry that parses it returns a dataset: one usable sample in each
  class is enough.
\<close>

theorem preprocessData_failures:
  "((\<exists>e. fst (preprocessData s u st) = Inl e \<and> input_validation_error e) \<longleftrightarrow>
      \<not> Array_isArray s \<or> \<not> Array_isArray u \<or> elements st s = [] \<or> elements st u = []) \<and>
   (Array_isArray s \<and> Array_isArray u \<and> elements st s \<noteq> [] \<and> elements st u \<noteq> [] \<longrightarrow>
      ((\<exists>e. fst (preprocessData s u st) = Inl e \<and> data_error e) \<longleftrightarrow>
         (\<forall>c \<in> set (elements st s). hexToRgb c = None) \<or>
         (\<forall>c \<in> set (elements st u). hexToRgb c = None))) \<and>
   (Array_isArray s \<and> Array_isArray u \<and>
    (\<exists>c \<in> set (elements st s). hexToRgb c \<noteq> None) \<and>
    (\<exists>c \<in> set (elements st u). hexToRgb c \<noteq> None) \<longrightarrow>
      (\<exists>d. fst (preprocessData s u st) = Inr d))"
proof (intro conjI impI)
  show "(\<exists>e. fst (preprocessData s u st) = Inl e \<and> input_validation_error e) \<longleftrightarrow>
      \<not> Array_isArray s \<or> \<not> Array_isArray u \<or> elements st s = [] \<or> elements st u = []"
    by (auto simp: preprocessData_eq input_validation_error_def split: if_splits)
next
  assume "Array_isArray s \<and> Array_isArray u \<and> elements st s \<noteq> [] \<and> elements st u \<noteq> []"
  then show "(\<exists>e. fst (preprocessData s u st) = Inl e \<and> data_error e) \<longleftrightarrow>
         (\<forall>c \<in> set (elements st s). hexToRgb c = None) \<or>
         (\<forall>c \<in> set (elements st u). hexToRgb c = None)"
    by (simp add: preprocessData_eq data_error_def parseable_vectors_Nil_iff)
next
  assume a: "Array_isArray s \<and> Array_isArray u \<and>
    (\<exists>c \<in> set (elements st s). hexToRgb c \<noteq> None) \<and>
    (\<exists>c \<in> set (elements st u). hexToRgb c \<noteq> None)"
  then have "parseable_vectors (elements st s) \<noteq> []" "parseable_vectors (elements st u) \<noteq> []"
    by (simp_all add: parseable_vectors_nonempty)
  moreover from this have "elements st s \<noteq> []" "elements st u \<noteq> []"
    by auto
  ultimately show "\<exists>d. fst (preprocessData s u st) = Inr d"
    using a by (simp add: preprocessData_eq)
qed

text \<open>
  The theorem at \<^verbatim>\<open>null\<close>, at an empty array, at an array of unparseable entries, and
  at \<^verbatim>\<open>["#fff", "not-a-color"]\<close> with \<^verbatim>\<open>["#000"]\<close>, one usable sample in each class.
\<close>

theorem preprocessData_failures_witness:
  "fst (preprocessData JSNull (JSArrayRef 1) example_state) =
     Inl (Error ''Color arrays must be provided'') \<and>
   fst (preprocessData (JSArrayRef 5) (JSArrayRef 1) example_state) =
     Inl (Error ''Both selected and unselected colors must contain data'') \<and>
   (\<exists>e. fst (preprocessData (JSArrayRef 5) (JSArrayRef 1) example_state) = Inl e \<and>
        input_validation_error e) \<and>
   (\<exists>e. fst (preprocessData (JSArrayRef 2) (JSArrayRef 4) example_state) = Inl e \<and>
        data_error e) \<and>
   (\<exists>d. fst (preprocessData (JSArrayRef 2) (JSArrayRef 3) example_state) = Inr d)"
proof -
  note t = preprocessData_failures
  have 1: "fst (preprocessData JSNull (JSArrayRef 1) example_state) =
     Inl (Error ''Color arrays must be provided'')"
    by (simp add: preprocessData_eq Array_isArray_def)
  have 2: "fst (preprocessData (JSArrayRef 5) (JSArrayRef 1) example_state) =
     Inl (Error ''Both selected and unselected colors must contain data'')"
    by (simp add: preprocessData_eq Array_isArray_def elements_def example_arrays)
  have 3: "\<exists>e. fst (preprocessData (JSArrayRef 5) (JSArrayRef 1) example_state) = Inl e \<and>
        input_validation_error e"
    using t [of "JSArrayRef 5" "JSArrayRef 1" example_state, THEN conjunct1]
    by (simp add: elements_def example_arrays)
  have 4: "\<exists>e. fst (preprocessData (JSArrayRef 2) (JSArrayRef 4) example_state) = Inl e \<and>
        data_error e"
    using t [of "JSArrayRef 2" "JSArrayRef 4" example_state, THEN conjunct2, THEN conjunct1]
    by (simp add: elements_def Array_isArray_def example_arrays hexToRgb_not_a_color)
  have 5: "\<exists>d. fst (preprocessData (JSArrayRef 2) (JSArrayRef 3) example_state) = Inr d"
    using t [of "JSArrayRef 2" "JSArrayRef 3" example_state, THEN conjunct2, THEN conjunct2]
    by (simp add: elements_def Array_isArray_def example_arrays hexToRgb_white3 hexToRgb_black3)
  from 1 2 3 4 5 show ?thesis by (intro conjI)
qed

text \<open>
  Claim C10. Neither \<^verbatim>\<open>preprocessData\<close> nor \<^verbatim>\<open>trainModel\<close> writes to an array of
  the store: after a call, whether it returned or raised, every array has the content it
  had before, and so have the two arrays of the caller.
\<close>

theorem caller_arrays_unchanged:
  "arrays (snd (preprocessData selectedColors unselectedColors st)) = arrays st \<and>
   arrays (snd (snd (trainModel eng model selectedColors unselectedColors config st))) = arrays st"
proof
  show "arrays (snd (preprocessData selectedColors unselectedColors st)) = arrays st"
    by (simp add: preprocessData_frame)
  show "arrays (snd (snd (trainModel eng model selectedColors unselectedColors config st))) =
      arrays st"
    using preprocessData_frame [of selectedColors unselectedColors st]
    by (auto simp: trainModel_eq split: prod.splits sum.splits)
qed

text \<open>The theorem at a call that returns and at a call that raises.\<close>

theorem caller_arrays_unchanged_witness:
  "arrays (snd (preprocessData (JSArrayRef 2) (JSArrayRef 3) example_state)) 2 =
     [JSString ''#fff'', JSString ''not-a-color''] \<and>
   arrays (snd (preprocessData (JSArrayRef 2) (JSArrayRef 3) example_state)) 3 =
     [JSString ''#000''] \<and>
   arrays (snd (snd (trainModel (constant_model (Num 1)) () (JSArrayRef 2) (JSArrayRef 3) None
     example_state))) 2 = [JSString ''#fff'', JSString ''not-a-color''] \<and>
   arrays (snd (snd (trainModel (failing_model ''out of memory'') () (JSArrayRef 4) JSNull None
     example_state))) 4 = [JSString ''not-a-color'']"
  using caller_arrays_unchanged [of "JSArrayRef 2" "JSArrayRef 3" example_state
      "constant_model (Num 1)" "()" None]
    caller_arrays_unchanged [of "JSArrayRef 4" JSNull example_state
      "failing_model ''out of memory''" "()" None]
  by (simp add: example_arrays)

section \<open>The claims about the trainer\<close>

text \<open>
  Claim C2, as the specification states it, says that \<^verbatim>\<open>trainModel\<close> fails with the
  same error as the preprocessor. It does not: for an empty array of liked colours the
  preprocessor raises \<^verbatim>\<open>Both selected and unselected colors must contain data\<close>, and
  \<^verbatim>\<open>trainModel\<close> raises an error with another message.
\<close>

theorem trainModel_preprocessor_error_counterexample:
  "fst (preprocessData (JSArrayRef 5) (JSArrayRef 1) example_state) =
     Inl (Error ''Both selected and unselected colors must contain data'') \<and>
   fst (trainModel (constant_model (Num 1)) () (JSArrayRef 5) (JSArrayRef 1) None example_state) =
     Inl (Error ''Training failed: Both selected and unselected colors must contain data'') \<and>
   fst (trainModel (constant_model (Num 1)) () (JSArrayRef 5) (JSArrayRef 1) None example_state) \<noteq>
     Inl (Error ''Both selected and unselected colors must contain data'')"
  by (simp add: trainModel_eq preprocessData_eq Array_isArray_def elements_def example_arrays)

text \<open>
  Claim C2, amended. When the preprocessor raises an error, \<^verbatim>\<open>trainModel\<close> raises an
  error whose message is \<^verbatim>\<open>Training failed: \<close> followed by the message of the
  preprocessor's error. When the preprocessor returns a dataset and \<^verbatim>\<open>model.fit\<close>
  raises an error on it, \<^verbatim>\<open>trainModel\<close> raises an error whose message is
  \<^verbatim>\<open>Training failed: \<close> followed by the message of that error.
\<close>

theorem trainModel_wraps_errors:
  "(\<forall>e. fst (preprocessData selectedColors unselectedColors st) = Inl e \<longrightarrow>
      fst (trainModel eng model selectedColors unselectedColors config st) =
        Inl (Error (''Training failed: '' @ message e))) \<and>
   (\<forall>tensors e.
      fst (preprocessData selectedColors unselectedColors st) = Inr tensors \<and>
      fst (fit_fn eng model (ds_xs tensors) (ds_ys tensors) (fit_options config)) = Inl e \<longrightarrow>
      fst (trainModel eng model selectedColors unselectedColors config st) =
        Inl (Error (''Training failed: '' @ message e)))"
  by (auto simp: trainModel_eq split: prod.splits sum.splits)

text \<open>
  The theorem at an empty array of liked colours, and at a model whose training raises
  \<^verbatim>\<open>out of memory\<close>.
\<close>

theorem trainModel_wraps_errors_witness:
  "fst (trainModel (constant_model (Num 1)) () (JSArrayRef 5) (JSArrayRef 1) None example_state) =
     Inl (Error ''Training failed: Both selected and unselected colors must contain data'') \<and>
   fst (trainModel (failing_model ''out of memory'') () (JSArrayRef 0) (JSArrayRef 1) None
     example_state) = Inl (Error ''Training failed: out of memory'')"
proof -
  have e: "fst (preprocessData (JSArrayRef 5) (JSArrayRef 1) example_state) =
      Inl (Error ''Both selected and unselected colors must contain data'')"
    by (simp add: preprocessData_eq Array_isArray_def elements_def example_arrays)
  have f: "fst (fit_fn (failing_model ''out of memory'') () x y args) =
      Inl (Error ''out of memory'')" for x y args
    by (simp add: failing_model_def)
  have 1: "fst (trainModel (constant_model (Num 1)) () (JSArrayRef 5) (JSArrayRef 1) None
      example_state) =
      Inl (Error ''Training failed: Both selected and unselected colors must contain data'')"
    using trainModel_wraps_errors [THEN conjunct1, THEN spec, THEN mp, OF e,
        of "constant_model (Num 1)" "()" None]
    by simp
  have 2: "fst (trainModel (failing_model ''out of memory'') () (JSArrayRef 0) (JSArrayRef 1) None
      example_state) = Inl (Error ''Training failed: out of memory'')"
    using trainModel_wraps_errors [THEN conjunct2, THEN spec, THEN spec, THEN mp,
        OF conjI [OF example_dataset f]]
    by simp
  from 1 2 show ?thesis by (intro conjI)
qed

text \<open>
  Claim C9. When the preprocessor returns a dataset, \<^verbatim>\<open>trainModel\<close> calls
  \<^verbatim>\<open>model.fit\<close> on the two tensors of the dataset, once and with these options: the
  requested number of epochs, batch size and validation split, with 50, 32 and 0.2 in
  place of each one that the fourth argument leaves out; shuffling on; and as callbacks
  exactly one early-stopping rule that monitors \<^verbatim>\<open>val_loss\<close> with a minimal
  improvement of 0.001, a patience of 5 and the mode \<^verbatim>\<open>min\<close>. What \<^verbatim>\<open>trainModel\<close>
  returns is the history that this call returns, or the error that it raises under the
  prefix \<^verbatim>\<open>Training failed: \<close>; the model is left in the state in which this call
  leaves it; and this call is the only call made to the model. When the preprocessor
  raises, the model is left as it was and no call is made to it.
\<close>

theorem trainModel_fit_call:
  "(\<forall>e. fst (preprocessData selectedColors unselectedColors st) = Inl e \<longrightarrow>
      fst (snd (trainModel eng model selectedColors unselectedColors config st)) = model \<and>
      calls (snd (snd (trainModel eng model selectedColors unselectedColors config st))) =
        calls st) \<and>
   (\<forall>tensors args.
      fst (preprocessData selectedColors unselectedColors st) = Inr tensors \<and>
      args =
        \<lparr>epochs = (case config of
                      None \<Rightarrow> JSNumber (Num 50)
                    | Some c \<Rightarrow> if epochs c = JSUndefined then JSNumber (Num 50) else epochs c),
         batchSize = (case config of
                        None \<Rightarrow> JSNumber (Num 32)
                      | Some c \<Rightarrow>
                          if batchSize c = JSUndefined then JSNumber (Num 32) else batchSize c),
         validationSplit = (case config of
                              None \<Rightarrow> JSNumber (Num (2 / 10))
                            | Some c \<Rightarrow>
                                if validationSplit c = JSUndefined then JSNumber (Num (2 / 10))
                                else validationSplit c),
         shuffle = True,
         callbacks = [earlyStopping \<lparr>monitor = ''val_loss'', minDelta = 1 / 1000,
                                      patience = 5, mode = ''min''\<rparr>],
         verbose = 1\<rparr> \<longrightarrow>
      fst (trainModel eng model selectedColors unselectedColors config st) =
        (case fst (fit_fn eng model (ds_xs tensors) (ds_ys tensors) args) of
           Inl e \<Rightarrow> Inl (Error (''Training failed: '' @ message e))
         | Inr history \<Rightarrow> Inr history) \<and>
      fst (snd (trainModel eng model selectedColors unselectedColors config st)) =
        snd (fit_fn eng model (ds_xs tensors) (ds_ys tensors) args) \<and>
      calls (snd (snd (trainModel eng model selectedColors unselectedColors config st))) =
        calls st @ [FitCall (ds_xs tensors) (ds_ys tensors) args])"
proof (intro conjI allI impI)
  fix e assume e: "fst (preprocessData selectedColors unselectedColors st) = Inl e"
  then show "fst (snd (trainModel eng model selectedColors unselectedColors config st)) = model"
    by (auto simp: trainModel_eq split: prod.splits sum.splits)
  from e show "calls (snd (snd (trainModel eng model selectedColors unselectedColors config st))) =
        calls st"
    using preprocessData_frame [of selectedColors unselectedColors st]
    by (auto simp: trainModel_eq split: prod.splits sum.splits)
next
  fix tensors args
  assume a: "fst (preprocessData selectedColors unselectedColors st) = Inr tensors \<and>
      args =
        \<lparr>epochs = (case config of
                      None \<Rightarrow> JSNumber (Num 50)
                    | Some c \<Rightarrow> if epochs c = JSUndefined then JSNumber (Num 50) else epochs c),
         batchSize = (case config of
                        None \<Rightarrow> JSNumber (Num 32)
                      | Some c \<Rightarrow>
                          if batchSize c = JSUndefined then JSNumber (Num 32) else batchSize c),
         validationSplit = (case config of
                              None \<Rightarrow> JSNumber (Num (2 / 10))
                            | Some c \<Rightarrow>
                                if validationSplit c = JSUndefined then JSNumber (Num (2 / 10))
                                else validationSplit c),
         shuffle = True,
         callbacks = [earlyStopping \<lparr>monitor = ''val_loss'', minDelta = 1 / 1000,
                                      patience = 5, mode = ''min''\<rparr>],
         verbose = 1\<rparr>"
  then have args: "args = fit_options config"
    by (simp add: fit_options_def default_to_def split: option.splits)
  from a have p: "fst (preprocessData selectedColors unselectedColors st) = Inr tensors" ..
  from p show "fst (trainModel eng model selectedColors unselectedColors config st) =
        (case fst (fit_fn eng model (ds_xs tensors) (ds_ys tensors) args) of
           Inl e \<Rightarrow> Inl (Error (''Training failed: '' @ message e))
         | Inr history \<Rightarrow> Inr history)"
    unfolding args by (auto simp: trainModel_eq split: prod.splits sum.splits)
  from p show "fst (snd (trainModel eng model selectedColors unselectedColors config st)) =
        snd (fit_fn eng model (ds_xs tensors) (ds_ys tensors) args)"
    unfolding args by (auto simp: trainModel_eq split: prod.splits sum.splits)
  from p show "calls (snd (snd (trainModel eng model selectedColors unselectedColors config st))) =
        calls st @ [FitCall (ds_xs tensors) (ds_ys tensors) args]"
    unfolding args
    using preprocessData_frame [of selectedColors unselectedColors st]
    by (auto simp: trainModel_eq split: prod.splits sum.splits)
qed

text \<open>
  The theorem at a model whose training returns the options it was called with and counts
  its trainings: with no fourth argument, and with a fourth argument that gives the epochs
  only. At a model whose training raises. And at a call on which the preprocessor raises.
\<close>

theorem trainModel_fit_call_witness:
  "fst (trainModel echo_model 0 (JSArrayRef 0) (JSArrayRef 1) None example_state) =
     Inr \<lparr>epochs = JSNumber (Num 50), batchSize = JSNumber (Num 32),
          validationSplit = JSNumber (Num (2 / 10)), shuffle = True,
          callbacks = [earlyStopping \<lparr>monitor = ''val_loss'', minDelta = 1 / 1000,
                                       patience = 5, mode = ''min''\<rparr>],
          verbose = 1\<rparr> \<and>
   fst (snd (trainModel echo_model 0 (JSArrayRef 0) (JSArrayRef 1) None example_state)) = 1 \<and>
   calls (snd (snd (trainModel echo_model 0 (JSArrayRef 0) (JSArrayRef 1) None example_state))) =
     [FitCall
        \<lparr>tid = 0, shape = (4, 3),
         tdata = [Num 1, Num 1, Num 1, Num 1, Num 1, Num 1,
                  Num 0, Num 0, Num 0, Num 0, Num 0, Num 0]\<rparr>
        \<lparr>tid = 1, shape = (4, 1), tdata = [Num 1, Num 1, Num 0, Num 0]\<rparr>
        \<lparr>epochs = JSNumber (Num 50), batchSize = JSNumber (Num 32),
         validationSplit = JSNumber (Num (2 / 10)), shuffle = True,
         callbacks = [earlyStopping \<lparr>monitor = ''val_loss'', minDelta = 1 / 1000,
                                      patience = 5, mode = ''min''\<rparr>],
         verbose = 1\<rparr>] \<and>
   fst (trainModel echo_model 0 (JSArrayRef 0) (JSArrayRef 1)
     (Some \<lparr>epochs = JSNumber (Num 10), batchSize = JSUndefined,
            validationSplit = JSUndefined\<rparr>)
     example_state) =
     Inr \<lparr>epochs = JSNumber (Num 10), batchSize = JSNumber (Num 32),
          validationSplit = JSNumber (Num (2 / 10)), shuffle = True,
          callbacks = [earlyStopping \<lparr>monitor = ''val_loss'', minDelta = 1 / 1000,
                                       patience = 5, mode = ''min''\<rparr>],
          verbose = 1\<rparr> \<and>
   fst (trainModel (failing_model ''out of memory'') () (JSArrayRef 0) (JSArrayRef 1) None
     example_state) = Inl (Error ''Training failed: out of memory'') \<and>
   fst (snd (trainModel echo_model 0 (JSArrayRef 0) (JSArrayRef 5) None example_state)) = 0 \<and>
   calls (snd (snd (trainModel echo_model 0 (JSArrayRef 0) (JSArrayRef 5) None example_state))) = []"
proof -
  have e: "fst (preprocessData (JSArrayRef 0) (JSArrayRef 5) example_state) =
      Inl (Error ''Both selected and unselected colors must contain data'')"
    by (simp add: preprocessData_eq Array_isArray_def elements_def example_arrays)
  note t1 = trainModel_fit_call [where config = None and eng = echo_model and model = 0,
      THEN conjunct2, THEN spec, THEN spec, THEN mp, OF conjI [OF example_dataset refl]]
  note t2 = trainModel_fit_call [where config = "Some \<lparr>epochs = JSNumber (Num 10),
      batchSize = JSUndefined, validationSplit = JSUndefined\<rparr>" and eng = echo_model
      and model = 0,
      THEN conjunct2, THEN spec, THEN spec, THEN mp, OF conjI [OF example_dataset refl]]
  note t3 = trainModel_fit_call [where config = None and eng = "failing_model ''out of memory''"
      and model = "()",
      THEN conjunct2, THEN spec, THEN spec, THEN mp, OF conjI [OF example_dataset refl]]
  note u1 = trainModel_fit_call [where config = None and eng = echo_model and model = 0,
      THEN conjunct1, THEN spec, THEN mp, OF e]
  have 1: "fst (trainModel echo_model 0 (JSArrayRef 0) (JSArrayRef 1) None example_state) =
     Inr \<lparr>epochs = JSNumber (Num 50), batchSize = JSNumber (Num 32),
          validationSplit = JSNumber (Num (2 / 10)), shuffle = True,
          callbacks = [earlyStopping \<lparr>monitor = ''val_loss'', minDelta = 1 / 1000,
                                       patience = 5, mode = ''min''\<rparr>],
          verbose = 1\<rparr>"
    using t1 [THEN conjunct1] by (simp add: echo_model_def)
  have 2: "fst (snd (trainModel echo_model 0 (JSArrayRef 0) (JSArrayRef 1) None example_state)) = 1"
    using t1 [THEN conjunct2, THEN conjunct1] by (simp add: echo_model_def)
  have 3: "calls (snd (snd (trainModel echo_model 0 (JSArrayRef 0) (JSArrayRef 1) None
     example_state))) =
     [FitCall
        \<lparr>tid = 0, shape = (4, 3),
         tdata = [Num 1, Num 1, Num 1, Num 1, Num 1, Num 1,
                  Num 0, Num 0, Num 0, Num 0, Num 0, Num 0]\<rparr>
        \<lparr>tid = 1, shape = (4, 1), tdata = [Num 1, Num 1, Num 0, Num 0]\<rparr>
        \<lparr>epochs = JSNumber (Num 50), batchSize = JSNumber (Num 32),
         validationSplit = JSNumber (Num (2 / 10)), shuffle = True,
         callbacks = [earlyStopping \<lparr>monitor = ''val_loss'', minDelta = 1 / 1000,
                                      patience = 5, mode = ''min''\<rparr>],
         verbose = 1\<rparr>]"
    using t1 [THEN conjunct2, THEN conjunct2] by (simp add: example_fields)
  have 4: "fst (trainModel echo_model 0 (JSArrayRef 0) (JSArrayRef 1)
     (Some \<lparr>epochs = JSNumber (Num 10), batchSize = JSUndefined,
            validationSplit = JSUndefined\<rparr>)
     example_state) =
     Inr \<lparr>epochs = JSNumber (Num 10), batchSize = JSNumber (Num 32),
          validationSplit = JSNumber (Num (2 / 10)), shuffle = True,
          callbacks = [earlyStopping \<lparr>monitor = ''val_loss'', minDelta = 1 / 1000,
                                       patience = 5, mode = ''min''\<rparr>],
          verbose = 1\<rparr>"
    using t2 [THEN conjunct1] by (simp add: echo_model_def)
  have 5: "fst (trainModel (failing_model ''out of memory'') () (JSArrayRef 0) (JSArrayRef 1) None
     example_state) = Inl (Error ''Training failed: out of memory'')"
    using t3 [THEN conjunct1] by (simp add: failing_model_def)
  have 6: "fst (snd (trainModel echo_model 0 (JSArrayRef 0) (JSArrayRef 5) None example_state)) = 0"
    using u1 [THEN conjunct1] by simp
  have 7: "calls (snd (snd (trainModel echo_model 0 (JSArrayRef 0) (JSArrayRef 5) None
      example_state))) = []"
    using u1 [THEN conjunct2] by (simp add: example_fields)
  from 1 2 3 4 5 6 7 show ?thesis by (intro conjI)
qed

section \<open>The claims about the predictor\<close>

text \<open>
  Claim C8. When the colour does not parse, \<^verbatim>\<open>predictColor\<close> raises
  \<^verbatim>\<open>Invalid color format\<close> and leaves the state as it was: no tensor has been
  allocated and no call has been made to the model.
\<close>

theorem predictColor_invalid_input:
  "hexToRgb color = None \<Longrightarrow>
     predictColor eng model color st = (Inl (Error ''Invalid color format''), st)"
  by (simp add: predictColor_def)

text \<open>The theorem at \<^verbatim>\<open>"not-a-color"\<close>.\<close>

theorem predictColor_invalid_input_witness:
  "hexToRgb (JSString ''not-a-color'') = None \<and>
   predictColor (constant_model (Num 1)) () (JSString ''not-a-color'') example_state =
     (Inl (Error ''Invalid color format''), example_state)"
proof -
  have n: "hexToRgb (JSString ''not-a-color'') = None"
    by (simp add: hexToRgb_string strip_hash_def expand_shorthand_def channels_def regex_exec_def)
  from n predictColor_invalid_input [OF n] show ?thesis by (intro conjI)
qed

text \<open>
  The string \<^verbatim>\<open>"#bad"\<close> is not such a colour: it is the shorthand of
  \<^verbatim>\<open>"#bbaadd"\<close>, and \<^verbatim>\<open>predictColor\<close> runs the forward pass on it.
\<close>

lemma hash_bad_is_a_colour:
  "hexToRgb (JSString ''#bad'') = Some [Num (187 / 255), Num (170 / 255), Num (221 / 255)] \<and>
   calls (snd (predictColor (constant_model (Num (3 / 4))) () (JSString ''#bad'') example_state)) =
     [PredictCall \<lparr>tid = 0, shape = (1, 3),
                   tdata = [Num (3075823 / 4194304), Num (11184811 / 16777216),
                            Num (7270127 / 8388608)]\<rparr>]"
proof
  show "hexToRgb (JSString ''#bad'') = Some [Num (187 / 255), Num (170 / 255), Num (221 / 255)]"
    by (rule hexToRgb_bad)
  have t: "fst (tensor2d [[Num (187 / 255), Num (170 / 255), Num (221 / 255)]] example_state) =
      \<lparr>tid = 0, shape = (1, 3),
       tdata = [Num (3075823 / 4194304), Num (11184811 / 16777216), Num (7270127 / 8388608)]\<rparr>"
    unfolding tensor2d_def fst_conv concat.simps append.simps list.map fround_channels
    by (simp add: example_fields)
  show "calls (snd (predictColor (constant_model (Num (3 / 4))) () (JSString ''#bad'')
      example_state)) =
     [PredictCall \<lparr>tid = 0, shape = (1, 3),
                   tdata = [Num (3075823 / 4194304), Num (11184811 / 16777216),
                            Num (7270127 / 8388608)]\<rparr>]"
    unfolding predictColor_calls [OF hexToRgb_bad] t by (simp add: example_fields)
qed

text \<open>
  Claim C3. For a colour that parses and a model, in whatever state, whose forward pass
  returns a score, \<^verbatim>\<open>predictColor\<close> returns a result and raises nothing. The result
  holds the score, the confidence \<open>|score - 0.5| * 2\<close>, the boolean \<open>score > 0.5\<close>, and
  the label \<^verbatim>\<open>like\<close> when \<open>score > 0.5\<close> and \<^verbatim>\<open>dislike\<close> otherwise. For a score
  between 0 and 1 the confidence lies between 0 and 1.
\<close>

theorem predictColor_result:
  assumes "hexToRgb color = Some rgb"
    and "predict_fn eng model (fst (tensor2d [rgb] st)) = Inr (sh, s # rest)"
  shows "fst (predictColor eng model color st) =
           Inr \<lparr>score = Some s,
                confidence = js_mul (Math_abs (js_sub s (Num (1 / 2)))) (Num 2),
                likely = js_gt s (Num (1 / 2)),
                prediction = (if js_gt s (Num (1 / 2)) then ''like'' else ''dislike'')\<rparr> \<and>
         (\<forall>r. s = Num r \<longrightarrow>
            js_mul (Math_abs (js_sub s (Num (1 / 2)))) (Num 2) = Num (\<bar>r - 1 / 2\<bar> * 2) \<and>
            js_gt s (Num (1 / 2)) = (1 / 2 < r) \<and>
            (0 \<le> r \<and> r \<le> 1 \<longrightarrow> in_unit_interval (Num (\<bar>r - 1 / 2\<bar> * 2))))"
proof (intro conjI allI impI)
  show "fst (predictColor eng model color st) =
           Inr \<lparr>score = Some s,
                confidence = js_mul (Math_abs (js_sub s (Num (1 / 2)))) (Num 2),
                likely = js_gt s (Num (1 / 2)),
                prediction = (if js_gt s (Num (1 / 2)) then ''like'' else ''dislike'')\<rparr>"
    by (simp add: predictColor_result_eq [OF assms(1)] assms(2) to_number_def)
next
  fix r assume "s = Num r"
  then show "js_mul (Math_abs (js_sub s (Num (1 / 2)))) (Num 2) = Num (\<bar>r - 1 / 2\<bar> * 2)"
    and "js_gt s (Num (1 / 2)) = (1 / 2 < r)"
    by simp_all
next
  fix r :: real assume "0 \<le> r \<and> r \<le> 1"
  then show "in_unit_interval (Num (\<bar>r - 1 / 2\<bar> * 2))"
    by (simp add: in_unit_interval_def abs_if)
qed

text \<open>The theorem at the scores 0.75 and 0.5.\<close>

theorem predictColor_result_witness:
  "fst (predictColor (constant_model (Num (3 / 4))) () (JSString ''#ffffff'') example_state) =
     Inr \<lparr>score = Some (Num (3 / 4)), confidence = Num (1 / 2), likely = True,
          prediction = ''like''\<rparr> \<and>
   in_unit_interval (Num (1 / 2)) \<and>
   fst (predictColor (constant_model (Num (1 / 2))) () (JSString ''#ffffff'') example_state) =
     Inr \<lparr>score = Some (Num (1 / 2)), confidence = Num 0, likely = False,
          prediction = ''dislike''\<rparr>"
proof -
  have p: "hexToRgb (JSString ''#ffffff'') = Some [Num 1, Num 1, Num 1]"
    by (simp add: hexToRgb_string strip_hash_def expand_shorthand_def channels_def regex_exec_def
        hex_class_def parseInt16_def hex_digit_value_def)
  have m: "predict_fn (constant_model s) () (fst (tensor2d [[Num 1, Num 1, Num 1]] example_state)) =
      Inr ((1, 1), s # [])" for s
    by (simp add: constant_model_def)
  note a = predictColor_result [OF p m [of "Num (3 / 4)"]]
  note b = predictColor_result [OF p m [of "Num (1 / 2)"]]
  from a [THEN conjunct1] a [THEN conjunct2, THEN spec, of "3 / 4"]
  have 1: "fst (predictColor (constant_model (Num (3 / 4))) () (JSString ''#ffffff'') example_state) =
     Inr \<lparr>score = Some (Num (3 / 4)), confidence = Num (1 / 2), likely = True,
          prediction = ''like''\<rparr>"
    and 2: "in_unit_interval (Num (1 / 2))"
    by simp_all
  from b [THEN conjunct1]
  have 3: "fst (predictColor (constant_model (Num (1 / 2))) () (JSString ''#ffffff'') example_state) =
     Inr \<lparr>score = Some (Num (1 / 2)), confidence = Num 0, likely = False,
          prediction = ''dislike''\<rparr>"
    by simp
  from 1 2 3 show ?thesis by (intro conjI)
qed

section \<open>The claim about the release of tensors\<close>

text \<open>
  \<^verbatim>\<open>trainModel\<close> releases the two tensors of its dataset on every path, and allocates
  nothing that it leaves behind.
\<close>

lemma trainModel_releases_tensors:
  "live (snd (snd (trainModel eng model s u config st))) \<subseteq> live st \<and>
   (\<forall>d. fst (preprocessData s u st) = Inr d \<longrightarrow>
      tid (ds_xs d) \<notin> live (snd (snd (trainModel eng model s u config st))) \<and>
      tid (ds_ys d) \<notin> live (snd (snd (trainModel eng model s u config st))))"
  by (auto simp: trainModel_eq preprocessData_eq split: prod.splits sum.splits if_splits)

text \<open>
  \<^verbatim>\<open>predictColor\<close> releases its input tensor on every path. The tensor that the
  forward pass returns is another matter: whenever the forward pass returns, its output
  is still allocated after \<^verbatim>\<open>predictColor\<close> has returned.
\<close>

lemma predictColor_input_released_output_live:
  assumes "hexToRgb color = Some rgb"
  shows "tid (fst (tensor2d [rgb] st)) \<notin> live (snd (predictColor eng model color st)) \<and>
     (\<forall>out. predict_fn eng model (fst (tensor2d [rgb] st)) = Inr out \<longrightarrow>
        Suc (next_id st) \<in> live (snd (predictColor eng model color st)))"
  by (auto simp: predictColor_live [OF assms] tensor2d_def split: sum.splits)

text \<open>
  Claim C1 says that every tensor allocated for a call of \<^verbatim>\<open>trainModel\<close> or
  \<^verbatim>\<open>predictColor\<close>, the output of the forward pass included, is released before the
  call returns. The \<^verbatim>\<open>finally\<close> clause of \<^verbatim>\<open>predictColor\<close> disposes of the input
  tensor only. Evaluated on \<^verbatim>\<open>"#ffffff"\<close> in a state with no tensor allocated and a
  model that returns the score 0.75, \<^verbatim>\<open>predictColor\<close> leaves one tensor allocated,
  the output of the forward pass.
\<close>

theorem predictColor_output_tensor_not_released:
  "live example_state = {} \<and>
   live (snd (predictColor (constant_model (Num (3 / 4))) () (JSString ''#ffffff'')
     example_state)) = {1}"
  by (simp add: predictColor_live [OF hexToRgb_white6] constant_model_def example_fields)

end
